theory Spec2Isabelle
  imports Complex_Main
begin

text \<open>
  A model of the order, cart and review handlers of the Foody API: checkout
  (\<^verbatim>\<open>POST /checkout\<close>) and the order status (\<^verbatim>\<open>PUT /:id/status\<close>) of the order
  routes, adding to the cart (\<^verbatim>\<open>routes/cart.js\<close>), creating and updating a review
  and the rating of a restaurant (\<^verbatim>\<open>routes/review.js\<close>). A handler
  is a function from the request and the store to its response and the new store; the
  requests are handled one after the other. The rules of \<^verbatim>\<open>express-validator\<close> that
  run before a handler and the authentication middleware are outside the model: a
  handler receives the user id and the fields of the body. The fields are typed where the
  handler only computes with them; where the handler passes them on to the store client,
  which rejects a value of the wrong type, they are values as they were sent.
\<close>

section \<open>Responses\<close>

text \<open>
  Every handler answers through \<^verbatim>\<open>errorResponse(res, message, statusCode)\<close> or
  \<^verbatim>\<open>successResponse(res, data, ...)\<close> of \<^verbatim>\<open>utils/response.js\<close>. A handler of the model
  returns \<open>failure + data\<close> together with the store it leaves behind. A failure keeps the
  HTTP status code and the message of the source, so that each branch of the model can be
  compared with the \<^verbatim>\<open>errorResponse\<close> call it comes from. The call with no status code
  uses the default \<open>500\<close> of the source; it is written out here.

  The error kinds of the specification are read off the responses as follows:
  \<open>404\<close> is NotFound, \<open>409\<close> is Conflict, \<open>500\<close> is Internal,
  \<open>400 Cart is empty\<close> is EmptyCart, \<open>400 Invalid status\<close> is InvalidStatus and
  \<open>400 You can only review restaurants you have ordered from\<close> is Forbidden.
\<close>

datatype failure = Failure (statusCode: nat) (message: string)

definition errorResponse :: "string \<Rightarrow> nat \<Rightarrow> failure" where
  "errorResponse msg code = Failure code msg"

section \<open>The relational store\<close>

text \<open>
  The tables of \<^verbatim>\<open>migration.sql\<close>, each a list of rows in insertion order. Only the
  columns that the modelled handlers read or write are kept. Identifiers are the
  \<^verbatim>\<open>SERIAL\<close> keys (natural numbers, drawn from one sequence per table), prices and
  quantities are the \<^verbatim>\<open>INTEGER\<close> columns. JavaScript numbers are modelled as exact
  integers (\<open>int\<close>) and exact rationals (\<open>rat\<close>, for the \<^verbatim>\<open>DOUBLE PRECISION\<close>
  rating): rounding errors of doubles are outside the model.
\<close>

record restaurant =
  r_id :: nat
  r_name :: string
  r_star :: rat

record restoMenu =
  m_id :: nat
  m_restaurantId :: nat
  m_foodName :: string
  m_price :: int

record userCartItem =
  c_id :: nat
  c_cartId :: string
  c_userId :: nat
  c_restaurantId :: nat
  c_menuId :: nat
  c_quantity :: int

text \<open>One element of the JSON array \<^verbatim>\<open>items\<close> of a transaction, as \<^verbatim>\<open>orderItems.push\<close> builds it.\<close>

record orderItem =
  oi_restaurantId :: nat
  oi_restaurantName :: string
  oi_menuId :: nat
  oi_menuName :: string
  oi_price :: int
  oi_quantity :: int
  oi_itemTotal :: int

record transaction =
  t_id :: nat
  t_transactionId :: string
  t_userId :: nat
  t_paymentMethod :: string
  t_price :: int
  t_serviceFee :: int
  t_deliveryFee :: int
  t_totalPrice :: int
  t_status :: string
  t_items :: "orderItem list"
  t_createdAt :: nat
  t_updatedAt :: nat

record restoReview =
  rv_id :: nat
  rv_userId :: nat
  rv_restaurantId :: nat
  rv_star :: int
  rv_comment :: "string option"

record store =
  restaurants :: "restaurant list"
  restoMenus :: "restoMenu list"
  userCartItems :: "userCartItem list"
  transactions :: "transaction list"
  restoReviews :: "restoReview list"
  cartSeq :: nat
  transactionSeq :: nat
  reviewSeq :: nat

subsection \<open>Values of a request\<close>

text \<open>
  A field of a JSON body as a handler reads it: absent (\<^verbatim>\<open>undefined\<close>), \<^verbatim>\<open>null\<close>, a
  boolean, a whole number, a string, or any other value (a number that is not whole, an
  array, an object). The keys and the integer columns of the store are 32-bit integers
  (\<^verbatim>\<open>SERIAL\<close>, \<^verbatim>\<open>INTEGER\<close>).
\<close>

datatype jsvalue = JUndefined | JNull | JBool bool | JNumber int | JString string | JOther

definition INT4 :: "int \<Rightarrow> bool" where
  "INT4 n \<longleftrightarrow> - 2147483648 \<le> n \<and> n \<le> 2147483647"

text \<open>What \<^verbatim>\<open>v || null\<close> and \<^verbatim>\<open>if (v)\<close> test: the other values are all truthy.\<close>

fun js_truthy :: "jsvalue \<Rightarrow> bool" where
  "js_truthy JUndefined = False"
| "js_truthy JNull = False"
| "js_truthy (JBool b) = b"
| "js_truthy (JNumber n) = (n \<noteq> 0)"
| "js_truthy (JString str) = (str \<noteq> [])"
| "js_truthy JOther = True"

subsection \<open>Rendering numbers in template strings\<close>

text \<open>
  \<^verbatim>\<open>`TXN${Date.now()}${userId}`\<close> and \<^verbatim>\<open>`cart_${userId}_${Date.now()}`\<close> render
  non-negative integers in decimal, without leading zeros.
\<close>

definition digit :: "nat \<Rightarrow> char" where
  "digit d = ''0123456789'' ! d"

fun dec :: "nat \<Rightarrow> string" where
  "dec n = (if n < 10 then [digit n] else dec (n div 10) @ [digit (n mod 10)])"

declare dec.simps [simp del]

subsection \<open>Queries\<close>

definition restaurant_findUnique :: "store \<Rightarrow> nat \<Rightarrow> restaurant option" where
  "restaurant_findUnique s rid = find (\<lambda>r. r_id r = rid) (restaurants s)"

definition restoMenu_findUnique :: "store \<Rightarrow> nat \<Rightarrow> restoMenu option" where
  "restoMenu_findUnique s mid = find (\<lambda>m. m_id m = mid) (restoMenus s)"

text \<open>\<^verbatim>\<open>prisma.userCartItem.findMany({ where: { userId } })\<close>\<close>

definition userCartItem_findMany :: "store \<Rightarrow> nat \<Rightarrow> userCartItem list" where
  "userCartItem_findMany s userId = filter (\<lambda>c. c_userId c = userId) (userCartItems s)"

text \<open>
  The \<^verbatim>\<open>include: { restaurant, menu }\<close> of a cart query joins every cart row with the
  current rows of its restaurant and its menu. The foreign keys of the schema make both
  exist; on a store that violates them \<^verbatim>\<open>item.menu.price\<close> would throw, so the join
  has no result there.
\<close>

fun include_rows :: "store \<Rightarrow> userCartItem list \<Rightarrow> (userCartItem \<times> restaurant \<times> restoMenu) list option" where
  "include_rows s [] = Some []"
| "include_rows s (c # cs) =
     (case restaurant_findUnique s (c_restaurantId c) of
        None \<Rightarrow> None
      | Some r \<Rightarrow>
          (case restoMenu_findUnique s (c_menuId c) of
             None \<Rightarrow> None
           | Some m \<Rightarrow>
               (case include_rows s cs of
                  None \<Rightarrow> None
                | Some rows \<Rightarrow> Some ((c, r, m) # rows))))"

section \<open>Checkout (POST /checkout)\<close>

text \<open>
  Both writes of the handler are awaited inside one \<^verbatim>\<open>try\<close>; when the store rejects
  one, control passes to the \<^verbatim>\<open>catch\<close>, which answers \<open>500\<close>. The record \<open>faults\<close>
  says which of the two writes the store rejects for a reason outside the model (a lost
  connection, a value out of the column's range). The unique index
  \<^verbatim>\<open>transactions_transactionId_key\<close> is inside the model: a second row with the same
  \<^verbatim>\<open>transactionId\<close> is rejected.
\<close>

record faults =
  createFails :: bool
  deleteManyFails :: bool

definition noFaults :: faults where
  "noFaults = \<lparr>createFails = False, deleteManyFails = False\<rparr>"

text \<open>The body of \<^verbatim>\<open>cartItems.forEach\<close>: the running subtotal and the order items so far.\<close>

fun forEach_item :: "(userCartItem \<times> restaurant \<times> restoMenu) list \<Rightarrow> int \<times> orderItem list \<Rightarrow> int \<times> orderItem list" where
  "forEach_item [] acc = acc"
| "forEach_item ((item, rest, menu) # rows) (subtotal, orderItems) =
     (let itemTotal = m_price menu * c_quantity item
      in forEach_item rows
           (subtotal + itemTotal,
            orderItems @
              [\<lparr>oi_restaurantId = c_restaurantId item,
                oi_restaurantName = r_name rest,
                oi_menuId = c_menuId item,
                oi_menuName = m_foodName menu,
                oi_price = m_price menu,
                oi_quantity = c_quantity item,
                oi_itemTotal = itemTotal\<rparr>]))"

definition generate_transactionId :: "nat \<Rightarrow> nat \<Rightarrow> string" where
  "generate_transactionId now userId = ''TXN'' @ dec now @ dec userId"

text \<open>
  \<^verbatim>\<open>prisma.transaction.create\<close>: the new row takes the next key of the sequence and the
  time of the call as both timestamps. The store rejects the row when \<open>createFails\<close>
  is set or when its \<^verbatim>\<open>transactionId\<close> is already stored; a rejected row leaves the
  store as it was.
\<close>

definition transaction_create ::
  "faults \<Rightarrow> nat \<Rightarrow> store \<Rightarrow> string \<Rightarrow> nat \<Rightarrow> string \<Rightarrow> int \<Rightarrow> int \<Rightarrow> int \<Rightarrow> int \<Rightarrow> string \<Rightarrow> orderItem list
     \<Rightarrow> (transaction \<times> store) option" where
  "transaction_create f now s transactionId userId paymentMethod price serviceFee deliveryFee totalPrice status its =
     (if createFails f \<or> transactionId \<in> set (map t_transactionId (transactions s)) then None
      else
        (let t = \<lparr>t_id = transactionSeq s + 1,
                  t_transactionId = transactionId,
                  t_userId = userId,
                  t_paymentMethod = paymentMethod,
                  t_price = price,
                  t_serviceFee = serviceFee,
                  t_deliveryFee = deliveryFee,
                  t_totalPrice = totalPrice,
                  t_status = status,
                  t_items = its,
                  t_createdAt = now,
                  t_updatedAt = now\<rparr>
         in Some (t, s\<lparr>transactions := transactions s @ [t],
                       transactionSeq := transactionSeq s + 1\<rparr>)))"

text \<open>\<^verbatim>\<open>prisma.userCartItem.deleteMany({ where: { userId } })\<close>\<close>

definition userCartItem_deleteMany :: "faults \<Rightarrow> store \<Rightarrow> nat \<Rightarrow> store option" where
  "userCartItem_deleteMany f s userId =
     (if deleteManyFails f then None
      else Some (s\<lparr>userCartItems := filter (\<lambda>c. c_userId c \<noteq> userId) (userCartItems s)\<rparr>))"

text \<open>
  The handler. \<open>now\<close> is the value of \<^verbatim>\<open>Date.now()\<close>. The data of the success response
  (identifier, status, the pricing block) are fields of the created row, which is
  returned whole; the restaurant-grouped view of the response is not part of the store
  and is left out. \<^verbatim>\<open>deliveryAddress\<close> and \<^verbatim>\<open>notes\<close> are read from the body and never
  used.
\<close>

definition checkout :: "faults \<Rightarrow> nat \<Rightarrow> store \<Rightarrow> nat \<Rightarrow> string \<Rightarrow> (failure + transaction) \<times> store" where
  "checkout f now s userId paymentMethod =
     (let cartItems = userCartItem_findMany s userId in
      if length cartItems = 0 then (Inl (errorResponse ''Cart is empty'' 400), s)
      else
        (case include_rows s cartItems of
           None \<Rightarrow> (Inl (errorResponse ''Failed to process checkout'' 500), s)
         | Some rows \<Rightarrow>
             (let (subtotal, orderItems) = forEach_item rows (0, []);
                  serviceFee = 1000;
                  deliveryFee = 10000;
                  totalPrice = subtotal + serviceFee + deliveryFee;
                  transactionId = generate_transactionId now userId
              in case transaction_create f now s transactionId userId paymentMethod
                        subtotal serviceFee deliveryFee totalPrice ''preparing'' orderItems of
                   None \<Rightarrow> (Inl (errorResponse ''Failed to process checkout'' 500), s)
                 | Some (t, s1) \<Rightarrow>
                     (case userCartItem_deleteMany f s1 userId of
                        None \<Rightarrow> (Inl (errorResponse ''Failed to process checkout'' 500), s1)
                      | Some s2 \<Rightarrow> (Inr t, s2)))))"

section \<open>Order status (PUT /:id/status)\<close>

definition validStatuses :: "string list" where
  "validStatuses = [''preparing'', ''on_the_way'', ''delivered'', ''done'', ''cancelled'']"

text \<open>\<^verbatim>\<open>prisma.transaction.findFirst({ where: { id, userId } })\<close>\<close>

definition transaction_findFirst :: "store \<Rightarrow> int \<Rightarrow> nat \<Rightarrow> transaction option" where
  "transaction_findFirst s orderId userId =
     find (\<lambda>t. int (t_id t) = orderId \<and> t_userId t = userId) (transactions s)"

text \<open>
  Modelled from the spec: the Prisma schema, which declares how \<^verbatim>\<open>updatedAt\<close> is
  maintained, is not among the sources. The specification says that setStatus updates
  the status and the update timestamp, and \<^verbatim>\<open>migration.sql\<close> gives the column no
  default, so the timestamp is written with every update of a row: here by
  \<^verbatim>\<open>prisma.transaction.update({ where: { id }, data: { status } })\<close>, with the time
  of the call.
\<close>

definition transaction_update_status :: "nat \<Rightarrow> store \<Rightarrow> int \<Rightarrow> string \<Rightarrow> store" where
  "transaction_update_status now s orderId newStatus =
     s\<lparr>transactions :=
          map (\<lambda>t. if int (t_id t) = orderId then t\<lparr>t_status := newStatus, t_updatedAt := now\<rparr> else t)
            (transactions s)\<rparr>"

text \<open>
  The handler. The route has no validation rule for the path parameter: \<open>parsedId\<close> is
  the value of \<^verbatim>\<open>Number.parseInt(id)\<close>, \<open>None\<close> when it is \<^verbatim>\<open>NaN\<close>. The key column
  is a 32-bit integer, so for \<^verbatim>\<open>NaN\<close> and for a number outside that range the client
  rejects the query and the handler leaves through its \<^verbatim>\<open>catch\<close>, which answers
  \<open>500\<close>. \<open>newStatus\<close> is \<^verbatim>\<open>req.body.status\<close>; a value that is not a string is not
  in the list and takes the branch of a string that is not. The data of the response
  are fields of the updated row.
\<close>

definition setStatus :: "nat \<Rightarrow> store \<Rightarrow> nat \<Rightarrow> int option \<Rightarrow> string \<Rightarrow> (failure + transaction) \<times> store" where
  "setStatus now s userId parsedId newStatus =
     (if newStatus \<notin> set validStatuses then (Inl (errorResponse ''Invalid status'' 400), s)
      else
        (case parsedId of
           None \<Rightarrow> (Inl (errorResponse ''Failed to update order status'' 500), s)
         | Some orderId \<Rightarrow>
             if \<not> INT4 orderId then (Inl (errorResponse ''Failed to update order status'' 500), s)
             else
               (case transaction_findFirst s orderId userId of
                  None \<Rightarrow> (Inl (errorResponse ''Order not found'' 404), s)
                | Some order \<Rightarrow>
                    (Inr (order\<lparr>t_status := newStatus, t_updatedAt := now\<rparr>),
                     transaction_update_status now s orderId newStatus))))"

section \<open>Cart (POST /cart)\<close>

text \<open>\<^verbatim>\<open>prisma.userCartItem.findFirst({ where: { userId, restaurantId, menuId } })\<close>\<close>

definition userCartItem_findFirst :: "store \<Rightarrow> nat \<Rightarrow> nat \<Rightarrow> nat \<Rightarrow> userCartItem option" where
  "userCartItem_findFirst s userId restaurantId menuId =
     find (\<lambda>c. c_userId c = userId \<and> c_restaurantId c = restaurantId \<and> c_menuId c = menuId)
       (userCartItems s)"

text \<open>\<^verbatim>\<open>prisma.restoMenu.findFirst({ where: { id: menuId, restaurantId } })\<close>\<close>

definition restoMenu_findFirst :: "store \<Rightarrow> nat \<Rightarrow> nat \<Rightarrow> restoMenu option" where
  "restoMenu_findFirst s menuId restaurantId =
     find (\<lambda>m. m_id m = menuId \<and> m_restaurantId m = restaurantId) (restoMenus s)"

definition userCartItem_update_quantity :: "store \<Rightarrow> nat \<Rightarrow> int \<Rightarrow> store" where
  "userCartItem_update_quantity s cid q =
     s\<lparr>userCartItems := map (\<lambda>c. if c_id c = cid then c\<lparr>c_quantity := q\<rparr> else c) (userCartItems s)\<rparr>"

definition userCartItem_create :: "store \<Rightarrow> string \<Rightarrow> nat \<Rightarrow> nat \<Rightarrow> nat \<Rightarrow> int \<Rightarrow> userCartItem \<times> store" where
  "userCartItem_create s cartId userId restaurantId menuId quantity =
     (let c = \<lparr>c_id = cartSeq s + 1, c_cartId = cartId, c_userId = userId,
                c_restaurantId = restaurantId, c_menuId = menuId, c_quantity = quantity\<rparr>
      in (c, s\<lparr>userCartItems := userCartItems s @ [c], cartSeq := cartSeq s + 1\<rparr>))"

text \<open>
  The handler. \<open>quantityOpt\<close> is \<^verbatim>\<open>req.body.quantity\<close>, \<open>None\<close> when the body has
  none (the destructuring default is \<open>1\<close>). The response carries the row and its line
  total \<^verbatim>\<open>cartItem.menu.price * cartItem.quantity\<close>.
\<close>

definition addItem :: "nat \<Rightarrow> store \<Rightarrow> nat \<Rightarrow> nat \<Rightarrow> nat \<Rightarrow> int option \<Rightarrow> (failure + userCartItem \<times> int) \<times> store" where
  "addItem now s userId restaurantId menuId quantityOpt =
     (let quantity = (case quantityOpt of None \<Rightarrow> 1 | Some q \<Rightarrow> q) in
      case restaurant_findUnique s restaurantId of
        None \<Rightarrow> (Inl (errorResponse ''Restaurant not found'' 404), s)
      | Some rest \<Rightarrow>
          (case restoMenu_findFirst s menuId restaurantId of
             None \<Rightarrow> (Inl (errorResponse ''Menu item not found'' 404), s)
           | Some menu \<Rightarrow>
               (let cartId = ''cart_'' @ dec userId @ ''_'' @ dec now in
                case userCartItem_findFirst s userId restaurantId menuId of
                  Some existingCartItem \<Rightarrow>
                    (let q = c_quantity existingCartItem + quantity;
                         cartItem = existingCartItem\<lparr>c_quantity := q\<rparr>
                     in (Inr (cartItem, m_price menu * c_quantity cartItem),
                         userCartItem_update_quantity s (c_id existingCartItem) q))
                | None \<Rightarrow>
                    (let (cartItem, s1) = userCartItem_create s cartId userId restaurantId menuId quantity
                     in (Inr (cartItem, m_price menu * c_quantity cartItem), s1)))))"

text \<open>A run of calls for one (user, restaurant, menu), each with its time and its quantity;
  the run has a result when every call succeeds.\<close>

fun addItem_calls :: "store \<Rightarrow> nat \<Rightarrow> nat \<Rightarrow> nat \<Rightarrow> (nat \<times> int option) list \<Rightarrow> store option" where
  "addItem_calls s userId restaurantId menuId [] = Some s"
| "addItem_calls s userId restaurantId menuId ((now, q) # calls) =
     (case addItem now s userId restaurantId menuId q of
        (Inl e, s') \<Rightarrow> None
      | (Inr r, s') \<Rightarrow> addItem_calls s' userId restaurantId menuId calls)"

section \<open>Reviews\<close>

subsection \<open>The rating of a restaurant (updateRestaurantRating)\<close>

text \<open>\<^verbatim>\<open>Math.round\<close>: the nearest integer, a tie going up.\<close>

definition Math_round :: "rat \<Rightarrow> int" where
  "Math_round x = \<lfloor>x + 1 / 2\<rfloor>"

text \<open>\<^verbatim>\<open>prisma.restoReview.findMany({ where: { restaurantId }, select: { star: true } })\<close>\<close>

definition restoReview_findMany :: "store \<Rightarrow> nat \<Rightarrow> restoReview list" where
  "restoReview_findMany s restaurantId =
     filter (\<lambda>v. rv_restaurantId v = restaurantId) (restoReviews s)"

text \<open>\<^verbatim>\<open>prisma.restaurant.update({ where: { id }, data: { star } })\<close>. On a missing row the
  client throws; the helper catches and logs, and the store stays as it is.\<close>

definition restaurant_update_star :: "store \<Rightarrow> nat \<Rightarrow> rat \<Rightarrow> store" where
  "restaurant_update_star s restaurantId v =
     s\<lparr>restaurants := map (\<lambda>r. if r_id r = restaurantId then r\<lparr>r_star := v\<rparr> else r) (restaurants s)\<rparr>"

definition updateRestaurantRating :: "store \<Rightarrow> nat \<Rightarrow> store" where
  "updateRestaurantRating s restaurantId =
     (let reviews = restoReview_findMany s restaurantId in
      if length reviews > 0 then
        (let averageRating =
               of_int (foldl (\<lambda>sum review. sum + rv_star review) 0 reviews) / of_nat (length reviews)
         in restaurant_update_star s restaurantId (of_int (Math_round (averageRating * 10)) / 10))
      else s)"

subsection \<open>Creating a review (POST /review)\<close>

text \<open>
  The handler reads \<^verbatim>\<open>transactionId\<close>, \<^verbatim>\<open>restaurantId\<close>, \<^verbatim>\<open>star\<close> and \<^verbatim>\<open>comment\<close>
  from the body as they were sent; the rules of the route test the string form of a value
  (\<^verbatim>\<open>isInt\<close>), so a whole number sent as a string reaches the handler. A call of the store client with a value that does not
  fit the column it is compared with or written to is rejected by the client (\<open>Inl ()\<close>):
  it throws, and the handler leaves through its \<^verbatim>\<open>catch\<close>, which answers \<open>500\<close>.

  \<^verbatim>\<open>prisma.transaction.findFirst({ where: { transactionId, userId } })\<close>: the column is
  text; a filter that is \<^verbatim>\<open>undefined\<close> is no filter.
\<close>

definition transaction_findFirst_by_transactionId :: "store \<Rightarrow> jsvalue \<Rightarrow> nat \<Rightarrow> unit + transaction option" where
  "transaction_findFirst_by_transactionId s transactionId userId =
     (case transactionId of
        JString tid \<Rightarrow> Inr (find (\<lambda>t. t_transactionId t = tid \<and> t_userId t = userId) (transactions s))
      | JUndefined \<Rightarrow> Inr (find (\<lambda>t. t_userId t = userId) (transactions s))
      | _ \<Rightarrow> Inl ())"

text \<open>\<^verbatim>\<open>prisma.restaurant.findUnique({ where: { id: restaurantId } })\<close>\<close>

definition restaurant_findUnique_by :: "store \<Rightarrow> jsvalue \<Rightarrow> unit + restaurant option" where
  "restaurant_findUnique_by s restaurantId =
     (case restaurantId of
        JNumber n \<Rightarrow> if INT4 n then Inr (find (\<lambda>r. int (r_id r) = n) (restaurants s)) else Inl ()
      | _ \<Rightarrow> Inl ())"

text \<open>\<^verbatim>\<open>prisma.restoReview.findFirst({ where: { userId, restaurantId } })\<close>\<close>

definition restoReview_findFirst :: "store \<Rightarrow> nat \<Rightarrow> jsvalue \<Rightarrow> unit + restoReview option" where
  "restoReview_findFirst s userId restaurantId =
     (case restaurantId of
        JNumber n \<Rightarrow>
          if INT4 n
          then Inr (find (\<lambda>v. rv_userId v = userId \<and> int (rv_restaurantId v) = n) (restoReviews s))
          else Inl ()
      | JUndefined \<Rightarrow> Inr (find (\<lambda>v. rv_userId v = userId) (restoReviews s))
      | _ \<Rightarrow> Inl ())"

text \<open>
  \<^verbatim>\<open>prisma.restoReview.create({ data: { userId, restaurantId, star, comment } })\<close>:
  \<^verbatim>\<open>restaurantId\<close> and \<^verbatim>\<open>star\<close> are integer columns, \<^verbatim>\<open>comment\<close> is text or
  \<^verbatim>\<open>null\<close>.
\<close>

definition restoReview_create :: "store \<Rightarrow> nat \<Rightarrow> jsvalue \<Rightarrow> jsvalue \<Rightarrow> jsvalue \<Rightarrow> unit + restoReview \<times> store" where
  "restoReview_create s userId restaurantId star comment =
     (case (restaurantId, star) of
        (JNumber n, JNumber k) \<Rightarrow>
          if INT4 n \<and> 0 \<le> n \<and> INT4 k \<and>
             (case comment of JNull \<Rightarrow> True | JString c \<Rightarrow> True | _ \<Rightarrow> False)
          then
            (let v = \<lparr>rv_id = reviewSeq s + 1, rv_userId = userId, rv_restaurantId = nat n,
                      rv_star = k,
                      rv_comment = (case comment of JString c \<Rightarrow> Some c | _ \<Rightarrow> None)\<rparr>
             in Inr (v, s\<lparr>restoReviews := restoReviews s @ [v], reviewSeq := reviewSeq s + 1\<rparr>))
          else Inl ()
      | _ \<Rightarrow> Inl ())"

text \<open>
  The handler. \<^verbatim>\<open>item.restaurantId === restaurantId\<close> holds for a number equal to the
  restaurant of the line; \<^verbatim>\<open>comment || null\<close> turns every falsy comment into
  \<^verbatim>\<open>null\<close>. The status of the transaction is not read.
\<close>

definition createReview :: "store \<Rightarrow> nat \<Rightarrow> jsvalue \<Rightarrow> jsvalue \<Rightarrow> jsvalue \<Rightarrow> jsvalue \<Rightarrow> (failure + restoReview) \<times> store" where
  "createReview s userId transactionId restaurantId star comment =
     (case transaction_findFirst_by_transactionId s transactionId userId of
        Inl rejected \<Rightarrow> (Inl (errorResponse ''Failed to create review'' 500), s)
      | Inr None \<Rightarrow> (Inl (errorResponse ''Transaction not found or does not belong to you'' 404), s)
      | Inr (Some txn) \<Rightarrow>
          (case restaurant_findUnique_by s restaurantId of
             Inl rejected \<Rightarrow> (Inl (errorResponse ''Failed to create review'' 500), s)
           | Inr None \<Rightarrow> (Inl (errorResponse ''Restaurant not found'' 404), s)
           | Inr (Some rest) \<Rightarrow>
               (let hasOrderedFromRestaurant =
                      list_ex (\<lambda>item. JNumber (int (oi_restaurantId item)) = restaurantId) (t_items txn) in
                if \<not> hasOrderedFromRestaurant
                then (Inl (errorResponse ''You can only review restaurants you have ordered from'' 400), s)
                else
                  (case restoReview_findFirst s userId restaurantId of
                     Inl rejected \<Rightarrow> (Inl (errorResponse ''Failed to create review'' 500), s)
                   | Inr (Some existingReview) \<Rightarrow>
                       (Inl (errorResponse ''You have already reviewed this restaurant'' 409), s)
                   | Inr None \<Rightarrow>
                       (case restoReview_create s userId restaurantId star
                               (if js_truthy comment then comment else JNull) of
                          Inl rejected \<Rightarrow> (Inl (errorResponse ''Failed to create review'' 500), s)
                        | Inr (review, s1) \<Rightarrow>
                            (Inr review, updateRestaurantRating s1 (rv_restaurantId review)))))))"

subsection \<open>Updating a review (PUT /review/:id)\<close>

text \<open>
  The route has no validation rules. \<open>star\<close> is \<^verbatim>\<open>req.body.star\<close>, \<open>None\<close> when the
  body has none; the model covers integer values. \<open>comment\<close> is \<open>None\<close> for
  \<^verbatim>\<open>undefined\<close>, \<open>Some None\<close> for \<^verbatim>\<open>null\<close>. A number is truthy when it is not zero.
\<close>

definition truthy :: "int option \<Rightarrow> bool" where
  "truthy star = (case star of None \<Rightarrow> False | Some n \<Rightarrow> n \<noteq> 0)"

text \<open>The \<^verbatim>\<open>data\<close> of the update: \<^verbatim>\<open>...(star && { star })\<close>, \<^verbatim>\<open>...(comment !== undefined && { comment })\<close>.\<close>

definition review_data :: "int option \<Rightarrow> string option option \<Rightarrow> restoReview \<Rightarrow> restoReview" where
  "review_data star comment v =
     (let v1 = (case star of None \<Rightarrow> v | Some n \<Rightarrow> if truthy star then v\<lparr>rv_star := n\<rparr> else v)
      in case comment of None \<Rightarrow> v1 | Some c \<Rightarrow> v1\<lparr>rv_comment := c\<rparr>)"

definition restoReview_update :: "store \<Rightarrow> nat \<Rightarrow> (restoReview \<Rightarrow> restoReview) \<Rightarrow> store" where
  "restoReview_update s reviewId d =
     s\<lparr>restoReviews := map (\<lambda>v. if rv_id v = reviewId then d v else v) (restoReviews s)\<rparr>"

definition updateReview :: "store \<Rightarrow> nat \<Rightarrow> nat \<Rightarrow> int option \<Rightarrow> string option option \<Rightarrow> (failure + restoReview) \<times> store" where
  "updateReview s userId reviewId star comment =
     (if truthy star \<and> (case star of None \<Rightarrow> False | Some n \<Rightarrow> n < 1 \<or> n > 5)
      then (Inl (errorResponse ''Rating must be between 1 and 5 stars'' 400), s)
      else
        (case find (\<lambda>v. rv_id v = reviewId \<and> rv_userId v = userId) (restoReviews s) of
           None \<Rightarrow> (Inl (errorResponse ''Review not found or does not belong to you'' 404), s)
         | Some review \<Rightarrow>
             (let s1 = restoReview_update s reviewId (review_data star comment);
                  updatedReview = review_data star comment review;
                  s2 = (if truthy star then updateRestaurantRating s1 (rv_restaurantId review) else s1)
              in (Inr updatedReview, s2))))"

section \<open>Notions used in the statements\<close>

text \<open>The order line that \<^verbatim>\<open>orderItems.push\<close> builds from one joined cart row.\<close>

definition snapshot :: "userCartItem \<times> restaurant \<times> restoMenu \<Rightarrow> orderItem" where
  "snapshot row = (case row of (item, rest, menu) \<Rightarrow>
     \<lparr>oi_restaurantId = c_restaurantId item,
      oi_restaurantName = r_name rest,
      oi_menuId = c_menuId item,
      oi_menuName = m_foodName menu,
      oi_price = m_price menu,
      oi_quantity = c_quantity item,
      oi_itemTotal = m_price menu * c_quantity item\<rparr>)"

text \<open>
  Line \<open>i\<close> of an order is cart entry \<open>c\<close> priced at checkout: same restaurant, menu and
  quantity, the unit price is the price that the menu row has in store \<open>s\<close>, and the line
  total is unit price times quantity.
\<close>

definition line_of :: "store \<Rightarrow> userCartItem \<Rightarrow> orderItem \<Rightarrow> bool" where
  "line_of s c i \<longleftrightarrow>
     oi_restaurantId i = c_restaurantId c \<and> oi_menuId i = c_menuId c \<and>
     oi_quantity i = c_quantity c \<and>
     map_option m_price (restoMenu_findUnique s (c_menuId c)) = Some (oi_price i) \<and>
     oi_itemTotal i = oi_price i * c_quantity c"

text \<open>
  The cart entries of one (user, restaurant, menu), and the quantity that a call of
  addItem passes: \<open>1\<close> when it passes none.
\<close>

definition triple_entries :: "store \<Rightarrow> nat \<Rightarrow> nat \<Rightarrow> nat \<Rightarrow> userCartItem list" where
  "triple_entries s userId restaurantId menuId =
     filter (\<lambda>c. c_userId c = userId \<and> c_restaurantId c = restaurantId \<and> c_menuId c = menuId)
       (userCartItems s)"

definition passed :: "nat \<times> int option \<Rightarrow> int" where
  "passed call = (case snd call of None \<Rightarrow> 1 | Some q \<Rightarrow> q)"

text \<open>
  The stars of the reviews of a restaurant, their arithmetic mean, and the rating that
  the store holds for a restaurant.
\<close>

definition stars_of :: "store \<Rightarrow> nat \<Rightarrow> int list" where
  "stars_of s restaurantId = [rv_star v. v \<leftarrow> restoReviews s, rv_restaurantId v = restaurantId]"

definition mean_star :: "store \<Rightarrow> nat \<Rightarrow> rat" where
  "mean_star s restaurantId =
     of_int (sum_list (stars_of s restaurantId)) / of_nat (length (stars_of s restaurantId))"

definition rating :: "store \<Rightarrow> nat \<Rightarrow> rat option" where
  "rating s restaurantId = map_option r_star (find (\<lambda>r. r_id r = restaurantId) (restaurants s))"

text \<open>
  The user has a cart entry; every cart entry of the user has its restaurant and its menu
  in the store.
\<close>

definition cart_filled :: "store \<Rightarrow> nat \<Rightarrow> bool" where
  "cart_filled s userId \<longleftrightarrow> userId \<in> c_userId ` set (userCartItems s)"

definition cart_joined :: "store \<Rightarrow> nat \<Rightarrow> bool" where
  "cart_joined s userId \<longleftrightarrow>
     list_all (\<lambda>c. c_restaurantId c \<in> r_id ` set (restaurants s) \<and>
                   c_menuId c \<in> m_id ` set (restoMenus s))
       [c \<leftarrow> userCartItems s. c_userId c = userId]"

text \<open>The identifiers of the stored orders.\<close>

definition stored_transactionIds :: "store \<Rightarrow> string set" where
  "stored_transactionIds s = t_transactionId ` set (transactions s)"

text \<open>The five statuses of an order.\<close>

definition order_statuses :: "string set" where
  "order_statuses = {''preparing'', ''on_the_way'', ''delivered'', ''done'', ''cancelled''}"


definition referenced_orders :: "store \<Rightarrow> string \<Rightarrow> nat \<Rightarrow> transaction list" where
  "referenced_orders s tid userId =
     [t \<leftarrow> transactions s. t_transactionId t = tid \<and> t_userId t = userId]"

text \<open>
  An order has a line item of a restaurant; a restaurant is in the store; a user has a
  review of a restaurant.
\<close>

definition has_line_item :: "transaction \<Rightarrow> int \<Rightarrow> bool" where
  "has_line_item t rid \<longleftrightarrow> rid \<in> (\<lambda>i. int (oi_restaurantId i)) ` set (t_items t)"

definition restaurant_exists :: "store \<Rightarrow> int \<Rightarrow> bool" where
  "restaurant_exists s rid \<longleftrightarrow> rid \<in> (\<lambda>r. int (r_id r)) ` set (restaurants s)"

definition has_reviewed :: "store \<Rightarrow> nat \<Rightarrow> int \<Rightarrow> bool" where
  "has_reviewed s userId rid \<longleftrightarrow>
     (userId, rid) \<in> (\<lambda>v. (rv_userId v, int (rv_restaurantId v))) ` set (restoReviews s)"

section \<open>Example stores\<close>

text \<open>
  A catalogue of three restaurants and two menus; the cart of user 7 with menu 5 (50000)
  twice and menu 9 (15000) once; the order that checkout makes of it at time
  1725123456789, and the store after that checkout.
\<close>

definition store0 :: store where
  "store0 =
     \<lparr>restaurants = [\<lparr>r_id = 1, r_name = ''Burger King'', r_star = 45 / 10\<rparr>,
                     \<lparr>r_id = 2, r_name = ''Pizza Hut'', r_star = 42 / 10\<rparr>,
                     \<lparr>r_id = 3, r_name = ''KFC'', r_star = 4\<rparr>],
      restoMenus = [\<lparr>m_id = 5, m_restaurantId = 1, m_foodName = ''Burger King Burger'', m_price = 50000\<rparr>,
                    \<lparr>m_id = 9, m_restaurantId = 2, m_foodName = ''Coca Cola'', m_price = 15000\<rparr>],
      userCartItems = [],
      transactions = [],
      restoReviews = [],
      cartSeq = 0, transactionSeq = 0, reviewSeq = 0\<rparr>"

definition cart1 :: "userCartItem list" where
  "cart1 =
     [\<lparr>c_id = 1, c_cartId = ''cart_7_1725123400000'', c_userId = 7, c_restaurantId = 1, c_menuId = 5, c_quantity = 2\<rparr>,
      \<lparr>c_id = 2, c_cartId = ''cart_7_1725123400500'', c_userId = 7, c_restaurantId = 2, c_menuId = 9, c_quantity = 1\<rparr>]"

definition store1 :: store where
  "store1 = store0\<lparr>userCartItems := cart1, cartSeq := 2\<rparr>"

definition txn1 :: transaction where
  "txn1 =
     \<lparr>t_id = 1, t_transactionId = ''TXN17251234567897'', t_userId = 7,
      t_paymentMethod = ''Bank Rakyat Indonesia'',
      t_price = 115000, t_serviceFee = 1000, t_deliveryFee = 10000, t_totalPrice = 126000,
      t_status = ''preparing'',
      t_items =
        [\<lparr>oi_restaurantId = 1, oi_restaurantName = ''Burger King'', oi_menuId = 5,
          oi_menuName = ''Burger King Burger'', oi_price = 50000, oi_quantity = 2, oi_itemTotal = 100000\<rparr>,
         \<lparr>oi_restaurantId = 2, oi_restaurantName = ''Pizza Hut'', oi_menuId = 9,
          oi_menuName = ''Coca Cola'', oi_price = 15000, oi_quantity = 1, oi_itemTotal = 15000\<rparr>],
      t_createdAt = 1725123456789, t_updatedAt = 1725123456789\<rparr>"

definition store2 :: store where
  "store2 = store1\<lparr>userCartItems := [], transactions := [txn1], transactionSeq := 1\<rparr>"

text \<open>
  The store rejects the cart-clear; the store rejects the creation of the order; the
  menu table after a change of price.
\<close>

definition clearFails :: faults where
  "clearFails = \<lparr>createFails = False, deleteManyFails = True\<rparr>"

definition createFaults :: faults where
  "createFaults = \<lparr>createFails = True, deleteManyFails = False\<rparr>"

definition menus_repriced :: "restoMenu list" where
  "menus_repriced =
     [\<lparr>m_id = 5, m_restaurantId = 1, m_foodName = ''Burger King Burger'', m_price = 65000\<rparr>,
      \<lparr>m_id = 9, m_restaurantId = 2, m_foodName = ''Coca Cola'', m_price = 15000\<rparr>]"

text \<open>The store after the first checkout, with the cart of user 7 filled again.\<close>

definition store3 :: store where
  "store3 = store2\<lparr>userCartItems :=
       [\<lparr>c_id = 3, c_cartId = ''cart_7_1725123456789'', c_userId = 7, c_restaurantId = 2, c_menuId = 9, c_quantity = 1\<rparr>],
     cartSeq := 3\<rparr>"

text \<open>Three calls of user 7 for menu 5 of restaurant 1 on the empty cart, and the store after them.\<close>

definition calls1 :: "(nat \<times> int option) list" where
  "calls1 = [(1725123400000, Some 2), (1725123400500, None), (1725123401000, Some 3)]"

definition store_after_calls1 :: store where
  "store_after_calls1 = store0\<lparr>userCartItems :=
       [\<lparr>c_id = 1, c_cartId = ''cart_7_1725123400000'', c_userId = 7, c_restaurantId = 1,
         c_menuId = 5, c_quantity = 6\<rparr>],
     cartSeq := 1\<rparr>"

text \<open>
  Stores with the reviews 5, 4, 3 for restaurant 1 and one review of one star for
  restaurant 2, with the single review 5, and with the reviews 5, 4, 4, 4 for
  restaurant 1; the stored rating of restaurant 1 is still 4.5.
\<close>

definition store_543 :: store where
  "store_543 = store2\<lparr>restoReviews :=
       [\<lparr>rv_id = 1, rv_userId = 7, rv_restaurantId = 1, rv_star = 5, rv_comment = Some ''Great food''\<rparr>,
        \<lparr>rv_id = 2, rv_userId = 8, rv_restaurantId = 1, rv_star = 4, rv_comment = None\<rparr>,
        \<lparr>rv_id = 3, rv_userId = 9, rv_restaurantId = 2, rv_star = 1, rv_comment = None\<rparr>,
        \<lparr>rv_id = 4, rv_userId = 9, rv_restaurantId = 1, rv_star = 3, rv_comment = None\<rparr>],
     reviewSeq := 4\<rparr>"

definition store_5 :: store where
  "store_5 = store2\<lparr>restoReviews :=
       [\<lparr>rv_id = 1, rv_userId = 7, rv_restaurantId = 1, rv_star = 5, rv_comment = None\<rparr>],
     reviewSeq := 1\<rparr>"

definition store_5444 :: store where
  "store_5444 = store2\<lparr>restoReviews :=
       [\<lparr>rv_id = 1, rv_userId = 7, rv_restaurantId = 1, rv_star = 5, rv_comment = None\<rparr>,
        \<lparr>rv_id = 2, rv_userId = 8, rv_restaurantId = 1, rv_star = 4, rv_comment = None\<rparr>,
        \<lparr>rv_id = 3, rv_userId = 9, rv_restaurantId = 1, rv_star = 4, rv_comment = None\<rparr>,
        \<lparr>rv_id = 4, rv_userId = 10, rv_restaurantId = 1, rv_star = 4, rv_comment = None\<rparr>],
     reviewSeq := 4\<rparr>"

text \<open>The review that user 7 creates for restaurant 1 with five stars and no comment.\<close>

definition review1 :: restoReview where
  "review1 = \<lparr>rv_id = 1, rv_userId = 7, rv_restaurantId = 1, rv_star = 5, rv_comment = None\<rparr>"

text \<open>
  The first order after its status was set to \<open>done\<close>, the store that holds it, and
  that store with the review of user 7 for restaurant 1.
\<close>

definition txn1_done :: transaction where
  "txn1_done = txn1\<lparr>t_status := ''done'', t_updatedAt := 1725127000000\<rparr>"

definition store_done :: store where
  "store_done = store2\<lparr>transactions := [txn1_done]\<rparr>"

definition store_done_reviewed :: store where
  "store_done_reviewed = store_done\<lparr>restoReviews := [review1], reviewSeq := 1\<rparr>"

text \<open>The store that holds the order, with a review of user 8 for restaurant 1.\<close>

definition store_done_other :: store where
  "store_done_other = store_done\<lparr>restoReviews :=
       [\<lparr>rv_id = 1, rv_userId = 8, rv_restaurantId = 1, rv_star = 2, rv_comment = None\<rparr>],
     reviewSeq := 1\<rparr>"

section \<open>Properties of checkout\<close>

lemma forEach_item_acc:
  "forEach_item rows (subtotal, orderItems) =
     (subtotal + sum_list (map (oi_itemTotal \<circ> snapshot) rows), orderItems @ map snapshot rows)"
  by (induction rows arbitrary: subtotal orderItems) (auto simp: snapshot_def Let_def)

lemma include_rows_lines:
  "include_rows s cs = Some rows \<Longrightarrow> list_all2 (line_of s) cs (map snapshot rows)"
  by (induction cs arbitrary: rows) (auto simp: line_of_def snapshot_def split: option.splits)

lemma checkout_InrD:
  assumes "checkout f now s userId paymentMethod = (Inr t, s')"
  shows "\<exists>rows s1.
           userCartItem_findMany s userId \<noteq> [] \<and>
           include_rows s (userCartItem_findMany s userId) = Some rows \<and>
           transaction_create f now s (generate_transactionId now userId) userId paymentMethod
             (fst (forEach_item rows (0, []))) 1000 10000
             (fst (forEach_item rows (0, [])) + 1000 + 10000) ''preparing''
             (snd (forEach_item rows (0, []))) = Some (t, s1) \<and>
           userCartItem_deleteMany f s1 userId = Some s'"
  using assms
  by (auto simp: checkout_def Let_def errorResponse_def split: if_splits option.splits prod.splits)

lemma transaction_create_SomeD:
  assumes "transaction_create f now s tid u pm p sf df tp st its = Some (t, s1)"
  shows "s1 = s\<lparr>transactions := transactions s @ [t], transactionSeq := transactionSeq s + 1\<rparr>"
    and "t_transactionId t = tid" and "t_userId t = u" and "t_price t = p" and "t_serviceFee t = sf"
    and "t_deliveryFee t = df" and "t_totalPrice t = tp" and "t_status t = st" and "t_items t = its"
    and "\<not> createFails f" and "tid \<notin> set (map t_transactionId (transactions s))"
  using assms by (auto simp: transaction_create_def Let_def split: if_splits)

lemma userCartItem_deleteMany_SomeD:
  assumes "userCartItem_deleteMany f s1 u = Some s2"
  shows "s2 = s1\<lparr>userCartItems := filter (\<lambda>c. c_userId c \<noteq> u) (userCartItems s1)\<rparr>" and "\<not> deleteManyFails f"
  using assms by (auto simp: userCartItem_deleteMany_def split: if_splits)

lemma checkout_run:
  assumes "userCartItem_findMany s u = c # cs"
    and "include_rows s (c # cs) = Some rows"
    and "forEach_item rows (0, []) = (sub, ois)"
    and "transaction_create f now s (generate_transactionId now u) u pm sub 1000 10000
           (sub + 1000 + 10000) ''preparing'' ois = Some (t, s1)"
  shows "checkout f now s u pm =
     (case userCartItem_deleteMany f s1 u of
        None \<Rightarrow> (Inl (Failure 500 ''Failed to process checkout''), s1)
      | Some s2 \<Rightarrow> (Inr t, s2))"
  using assms by (simp add: checkout_def errorResponse_def split: option.splits)

lemma gen1: "generate_transactionId 1725123456789 7 = ''TXN17251234567897''"
  by (simp add: generate_transactionId_def dec.simps digit_def)

lemma cart_store1: "userCartItem_findMany store1 7 = cart1"
  by (simp add: store1_def store0_def cart1_def userCartItem_findMany_def)

lemma rows_store1:
  "include_rows store1 cart1 =
     Some [(cart1 ! 0, restaurants store0 ! 0, restoMenus store0 ! 0),
           (cart1 ! 1, restaurants store0 ! 1, restoMenus store0 ! 1)]"
  by (simp add: store1_def store0_def cart1_def restaurant_findUnique_def restoMenu_findUnique_def)

lemma items_store1:
  "forEach_item [(cart1 ! 0, restaurants store0 ! 0, restoMenus store0 ! 0),
                 (cart1 ! 1, restaurants store0 ! 1, restoMenus store0 ! 1)] (0, []) =
     (t_price txn1, t_items txn1)"
  by (simp add: store0_def cart1_def txn1_def)

lemma create_store1:
  "\<not> createFails f \<Longrightarrow>
   transaction_create f 1725123456789 store1 ''TXN17251234567897'' 7 ''Bank Rakyat Indonesia''
     (t_price txn1) 1000 10000 (t_price txn1 + 1000 + 10000) ''preparing'' (t_items txn1) =
   Some (txn1, store1\<lparr>transactions := [txn1], transactionSeq := 1\<rparr>)"
  by (simp add: transaction_create_def Let_def store1_def store0_def txn1_def)

lemma checkout_store1:
  "checkout noFaults 1725123456789 store1 7 ''Bank Rakyat Indonesia'' = (Inr txn1, store2)"
proof -
  have c: "userCartItem_findMany store1 7 = hd cart1 # tl cart1"
    by (simp add: cart_store1) (simp add: cart1_def)
  have r: "include_rows store1 (hd cart1 # tl cart1) =
     Some [(cart1 ! 0, restaurants store0 ! 0, restoMenus store0 ! 0),
           (cart1 ! 1, restaurants store0 ! 1, restoMenus store0 ! 1)]"
    using rows_store1 by (simp add: cart1_def)
  have k: "\<not> createFails noFaults" by (simp add: noFaults_def)
  show ?thesis
    using checkout_run [OF c r items_store1, of noFaults 1725123456789 "''Bank Rakyat Indonesia''", 
        unfolded gen1, OF create_store1 [OF k]]
    by (simp add: userCartItem_deleteMany_def noFaults_def store2_def store1_def cart1_def)
qed

lemma checkout_store1_clearFails:
  "checkout clearFails 1725123456789 store1 7 ''Bank Rakyat Indonesia'' =
     (Inl (Failure 500 ''Failed to process checkout''), store1\<lparr>transactions := [txn1], transactionSeq := 1\<rparr>)"
proof -
  have c: "userCartItem_findMany store1 7 = hd cart1 # tl cart1"
    by (simp add: cart_store1) (simp add: cart1_def)
  have r: "include_rows store1 (hd cart1 # tl cart1) =
     Some [(cart1 ! 0, restaurants store0 ! 0, restoMenus store0 ! 0),
           (cart1 ! 1, restaurants store0 ! 1, restoMenus store0 ! 1)]"
    using rows_store1 by (simp add: cart1_def)
  have k: "\<not> createFails clearFails" by (simp add: clearFails_def)
  show ?thesis
    using checkout_run [OF c r items_store1, of clearFails 1725123456789 "''Bank Rakyat Indonesia''", 
        unfolded gen1, OF create_store1 [OF k]]
    by (simp add: userCartItem_deleteMany_def clearFails_def)
qed

text \<open>
  Claim C3. For every user whose cart has zero entries, checkout fails with the
  EmptyCart client error (status 400, \<open>Cart is empty\<close>) and creates no order: the store
  is returned unchanged, whatever the time, the payment method and the faults.
\<close>

theorem checkout_empty_cart:
  assumes "userCartItem_findMany s userId = []"
  shows "checkout f now s userId paymentMethod = (Inl (Failure 400 ''Cart is empty''), s)"
  using assms by (simp add: checkout_def errorResponse_def)

theorem checkout_empty_cart_witness:
  "userCartItem_findMany store0 7 = [] \<and>
   checkout noFaults 1725123456789 store0 7 ''Bank Rakyat Indonesia'' =
     (Inl (Failure 400 ''Cart is empty''), store0)"
proof -
  have e: "userCartItem_findMany store0 7 = []"
    by (simp add: userCartItem_findMany_def store0_def)
  from e checkout_empty_cart [OF e] show ?thesis by simp
qed

text \<open>
  Claim C1. For every successful checkout, the order \<open>t\<close> that the call persists
  satisfies \<open>totalPrice = subtotal + serviceFee + deliveryFee\<close>, its subtotal is the sum
  of the line totals of its items, every line is a cart entry of the user priced at the
  menu's current price (line total = price times quantity), and the user's cart is empty
  in the store that the call leaves behind.
\<close>

theorem checkout_success_totals:
  assumes "checkout f now s userId paymentMethod = (Inr t, s')"
  shows "transactions s' = transactions s @ [t] \<and>
         t_totalPrice t = t_price t + t_serviceFee t + t_deliveryFee t \<and>
         t_price t = sum_list (map oi_itemTotal (t_items t)) \<and>
         list_all2 (line_of s) (userCartItem_findMany s userId) (t_items t) \<and>
         userCartItem_findMany s' userId = []"
proof -
  from checkout_InrD [OF assms] obtain rows s1 where
    rows: "include_rows s (userCartItem_findMany s userId) = Some rows" and
    cr: "transaction_create f now s (generate_transactionId now userId) userId paymentMethod
             (fst (forEach_item rows (0, []))) 1000 10000
             (fst (forEach_item rows (0, [])) + 1000 + 10000) ''preparing''
             (snd (forEach_item rows (0, []))) = Some (t, s1)" and
    del: "userCartItem_deleteMany f s1 userId = Some s'"
    by blast
  note c = transaction_create_SomeD [OF cr]
  note d = userCartItem_deleteMany_SomeD [OF del]
  have stored: "transactions s' = transactions s @ [t]"
    by (simp add: d(1) c(1))
  have total: "t_totalPrice t = t_price t + t_serviceFee t + t_deliveryFee t"
    by (simp add: c)
  have its: "t_items t = map snapshot rows"
    by (simp add: c(9) forEach_item_acc)
  have sub: "t_price t = sum_list (map oi_itemTotal (t_items t))"
    by (simp add: c(4) its forEach_item_acc)
  have lines: "list_all2 (line_of s) (userCartItem_findMany s userId) (t_items t)"
    unfolding its by (rule include_rows_lines [OF rows])
  have empty: "userCartItem_findMany s' userId = []"
    by (simp add: d(1) userCartItem_findMany_def)
  from stored total sub lines empty show ?thesis by blast
qed


theorem checkout_success_totals_witness:
  "checkout noFaults 1725123456789 store1 7 ''Bank Rakyat Indonesia'' = (Inr txn1, store2) \<and>
   transactions store2 = transactions store1 @ [txn1] \<and>
   t_totalPrice txn1 = t_price txn1 + t_serviceFee txn1 + t_deliveryFee txn1 \<and>
   t_price txn1 = sum_list (map oi_itemTotal (t_items txn1)) \<and>
   list_all2 (line_of store1) (userCartItem_findMany store1 7) (t_items txn1) \<and>
   userCartItem_findMany store2 7 = [] \<and>
   t_price txn1 = 115000 \<and> t_totalPrice txn1 = 126000"
  using checkout_success_totals [OF checkout_store1] checkout_store1
  by (simp add: txn1_def)

lemma checkout_stored_id:
  assumes "generate_transactionId now userId \<in> set (map t_transactionId (transactions s))"
    and "userCartItem_findMany s userId = c # cs"
    and "include_rows s (c # cs) = Some rows"
  shows "checkout f now s userId paymentMethod = (Inl (Failure 500 ''Failed to process checkout''), s)"
  using assms
  by (simp add: checkout_def Let_def errorResponse_def transaction_create_def split: prod.splits)

lemma checkout_store3:
  "checkout noFaults 1725123456789 store3 7 ''Bank Rakyat Indonesia'' =
     (Inl (Failure 500 ''Failed to process checkout''), store3)"
proof (rule checkout_stored_id)
  show "generate_transactionId 1725123456789 7 \<in> set (map t_transactionId (transactions store3))"
    unfolding gen1 by (simp add: store3_def store2_def txn1_def)
  show "userCartItem_findMany store3 7 = hd (userCartItems store3) # []"
    by (simp add: userCartItem_findMany_def store3_def)
  show "include_rows store3 [hd (userCartItems store3)] =
     Some [(hd (userCartItems store3), restaurants store0 ! 1, restoMenus store0 ! 1)]"
    by (simp add: store3_def store2_def store1_def store0_def restaurant_findUnique_def restoMenu_findUnique_def)
qed

lemma cart_filled_findMany: "cart_filled s userId \<Longrightarrow> userCartItem_findMany s userId \<noteq> []"
  by (auto simp: cart_filled_def userCartItem_findMany_def filter_empty_conv)

lemma include_rows_joined:
  assumes "list_all (\<lambda>c. c_restaurantId c \<in> r_id ` set (restaurants s) \<and>
                          c_menuId c \<in> m_id ` set (restoMenus s)) cs"
  shows "include_rows s cs \<noteq> None"
  using assms
proof (induction cs)
  case Nil
  then show ?case by simp
next
  case (Cons c cs)
  then have r: "restaurant_findUnique s (c_restaurantId c) \<noteq> None"
    and m: "restoMenu_findUnique s (c_menuId c) \<noteq> None"
    by (auto simp: restaurant_findUnique_def restoMenu_findUnique_def find_None_iff)
  from Cons have "include_rows s cs \<noteq> None" by simp
  with r m show ?case by auto
qed

lemma cart_joined_rows: "cart_joined s userId \<Longrightarrow> include_rows s (userCartItem_findMany s userId) \<noteq> None"
  unfolding cart_joined_def userCartItem_findMany_def by (rule include_rows_joined)

lemma checkout_clear_rejected:
  assumes "deleteManyFails f" and "\<not> createFails f"
    and "generate_transactionId now userId \<notin> stored_transactionIds s"
    and "cart_filled s userId" and "cart_joined s userId"
    and "checkout f now s userId paymentMethod = (res, s')"
  shows "res = Inl (Failure 500 ''Failed to process checkout'') \<and>
         (\<exists>t. transactions s' = transactions s @ [t] \<and> t_userId t = userId) \<and>
         userCartItems s' = userCartItems s"
proof -
  from cart_joined_rows [OF assms(5)] obtain rows where
    rows: "include_rows s (userCartItem_findMany s userId) = Some rows" by auto
  from cart_filled_findMany [OF assms(4)] have ne: "userCartItem_findMany s userId \<noteq> []" .
  from assms(1,2,3,6) rows ne show ?thesis
    by (auto simp: checkout_def Let_def errorResponse_def transaction_create_def
          userCartItem_deleteMany_def stored_transactionIds_def split: prod.splits)
qed

lemma checkout_writes:
  assumes "checkout f now s userId paymentMethod = (res, s')"
  shows "(s' = s \<and> isl res)
       \<or> (\<exists>t. \<not> createFails f \<and> generate_transactionId now userId \<notin> stored_transactionIds s \<and>
              t_userId t = userId \<and> transactions s' = transactions s @ [t] \<and>
              ((deleteManyFails f \<and> isl res \<and> userCartItems s' = userCartItems s) \<or> res = Inr t))"
  using assms
  by (auto simp: checkout_def Let_def errorResponse_def transaction_create_def userCartItem_deleteMany_def
      stored_transactionIds_def split: if_splits option.splits prod.splits)

text \<open>
  Claim C2. The order is created before the cart is cleared, and in every run of checkout,
  whatever the store rejects: when the creation of the order fails (the store rejects it,
  or the generated identifier is already stored), the cart and the orders are as before
  and the call fails; when the cart has been changed, the order has been created: one
  order of the calling user has been appended to the stored orders, and it is the
  response; and when the store rejects the cart-clear after the order has been created
  (the cart of the user is filled, and its restaurants and menus are stored), the call
  fails with 500, the order stays stored and the cart is as before: the order is never
  left uncreated.
\<close>

theorem checkout_create_before_clear:
  assumes "checkout f now s userId paymentMethod = (res, s')"
  shows "((createFails f \<or> generate_transactionId now userId \<in> stored_transactionIds s) \<longrightarrow>
            userCartItems s' = userCartItems s \<and> transactions s' = transactions s \<and> isl res) \<and>
         (userCartItems s' \<noteq> userCartItems s \<longrightarrow>
            (\<exists>t. res = Inr t \<and> t_userId t = userId \<and> transactions s' = transactions s @ [t])) \<and>
         (deleteManyFails f \<and> \<not> createFails f \<and>
          generate_transactionId now userId \<notin> stored_transactionIds s \<and>
          cart_filled s userId \<and> cart_joined s userId \<longrightarrow>
            res = Inl (Failure 500 ''Failed to process checkout'') \<and>
            (\<exists>t. transactions s' = transactions s @ [t] \<and> t_userId t = userId) \<and>
            userCartItems s' = userCartItems s)"
proof -
  have a: "userCartItems s' = userCartItems s \<and> transactions s' = transactions s \<and> isl res"
    if "createFails f \<or> generate_transactionId now userId \<in> stored_transactionIds s"
    using checkout_writes [OF assms] that by auto
  have b: "\<exists>t. res = Inr t \<and> t_userId t = userId \<and> transactions s' = transactions s @ [t]"
    if "userCartItems s' \<noteq> userCartItems s"
    using checkout_writes [OF assms] that by auto
  have c: "res = Inl (Failure 500 ''Failed to process checkout'') \<and>
            (\<exists>t. transactions s' = transactions s @ [t] \<and> t_userId t = userId) \<and>
            userCartItems s' = userCartItems s"
    if "deleteManyFails f \<and> \<not> createFails f \<and>
          generate_transactionId now userId \<notin> stored_transactionIds s \<and>
          cart_filled s userId \<and> cart_joined s userId"
    using checkout_clear_rejected [of f now userId s paymentMethod res s'] that assms by simp
  from a b c show ?thesis by blast
qed

lemma filled_store1: "cart_filled store1 7"
  by (simp add: cart_filled_def store1_def cart1_def)

lemma joined_store1: "cart_joined store1 7"
  by (simp add: cart_joined_def store1_def store0_def cart1_def)

lemma fresh_store1: "generate_transactionId 1725123456789 7 \<notin> stored_transactionIds store1"
  by (simp add: stored_transactionIds_def store1_def store0_def)

lemma stored_store3: "generate_transactionId 1725123456789 7 \<in> stored_transactionIds store3"
  unfolding gen1 by (simp add: stored_transactionIds_def store3_def store2_def txn1_def)

theorem checkout_create_before_clear_witness:
  "createFails createFaults \<and>
   userCartItems (snd (checkout createFaults 1725123456789 store1 7 ''Bank Rakyat Indonesia'')) = userCartItems store1 \<and>
   transactions (snd (checkout createFaults 1725123456789 store1 7 ''Bank Rakyat Indonesia'')) = transactions store1 \<and>
   isl (fst (checkout createFaults 1725123456789 store1 7 ''Bank Rakyat Indonesia'')) \<and>
   generate_transactionId 1725123456789 7 \<in> stored_transactionIds store3 \<and>
   checkout noFaults 1725123456789 store3 7 ''Bank Rakyat Indonesia'' =
     (Inl (Failure 500 ''Failed to process checkout''), store3) \<and>
   checkout noFaults 1725123456789 store1 7 ''Bank Rakyat Indonesia'' = (Inr txn1, store2) \<and>
   userCartItems store2 \<noteq> userCartItems store1 \<and>
   t_userId txn1 = 7 \<and> transactions store2 = transactions store1 @ [txn1] \<and>
   deleteManyFails clearFails \<and> \<not> createFails clearFails \<and>
   generate_transactionId 1725123456789 7 \<notin> stored_transactionIds store1 \<and>
   cart_filled store1 7 \<and> cart_joined store1 7 \<and>
   fst (checkout clearFails 1725123456789 store1 7 ''Bank Rakyat Indonesia'') =
     Inl (Failure 500 ''Failed to process checkout'') \<and>
   transactions (snd (checkout clearFails 1725123456789 store1 7 ''Bank Rakyat Indonesia'')) =
     transactions store1 @ [txn1] \<and>
   userCartItems (snd (checkout clearFails 1725123456789 store1 7 ''Bank Rakyat Indonesia'')) = cart1"
proof -
  let ?pm = "''Bank Rakyat Indonesia''"
  have e1: "checkout createFaults 1725123456789 store1 7 ?pm =
     (fst (checkout createFaults 1725123456789 store1 7 ?pm), snd (checkout createFaults 1725123456789 store1 7 ?pm))"
    by simp
  have e2: "checkout clearFails 1725123456789 store1 7 ?pm =
     (fst (checkout clearFails 1725123456789 store1 7 ?pm), snd (checkout clearFails 1725123456789 store1 7 ?pm))"
    by simp
  have cf: "createFails createFaults" by (simp add: createFaults_def)
  have df: "deleteManyFails clearFails \<and> \<not> createFails clearFails" by (simp add: clearFails_def)
  note a = checkout_create_before_clear [OF e1, THEN conjunct1, rule_format, OF disjI1, OF cf]
  note b = checkout_create_before_clear [OF checkout_store3, THEN conjunct1, rule_format, OF disjI2, OF stored_store3]
  have ne: "userCartItems store2 \<noteq> userCartItems store1"
    by (simp add: store2_def store1_def cart1_def)
  note c = checkout_create_before_clear [OF checkout_store1, THEN conjunct2, THEN conjunct1, rule_format, OF ne]
  have h: "deleteManyFails clearFails \<and> \<not> createFails clearFails \<and>
          generate_transactionId 1725123456789 7 \<notin> stored_transactionIds store1 \<and>
          cart_filled store1 7 \<and> cart_joined store1 7"
    using df fresh_store1 filled_store1 joined_store1 by simp
  note d = checkout_create_before_clear [OF e2, THEN conjunct2, THEN conjunct2, rule_format, OF h]
  have t: "transactions (snd (checkout clearFails 1725123456789 store1 7 ?pm)) = transactions store1 @ [txn1]"
    unfolding checkout_store1_clearFails snd_conv by (simp add: store1_def store0_def)
  have u: "userCartItems store1 = cart1" by (simp add: store1_def)
  from a b c d cf h ne t u checkout_store1 checkout_store3 stored_store3 show ?thesis
    by (simp add: txn1_def)
qed

text \<open>
  Claim C8. The lines of an order are frozen at checkout: whatever the menu table becomes
  afterwards (\<open>menus'\<close>), the stored orders are the same, the order \<open>t\<close> that checkout
  created is among them with every field as created, and its lines carry the prices that
  the menus had in the store \<open>s\<close> of the checkout.
\<close>

theorem order_lines_frozen:
  assumes "checkout f now s userId paymentMethod = (Inr t, s')"
  shows "transactions (s'\<lparr>restoMenus := menus'\<rparr>) = transactions s' \<and>
         t \<in> set (transactions (s'\<lparr>restoMenus := menus'\<rparr>)) \<and>
         list_all2 (line_of s) (userCartItem_findMany s userId) (t_items t)"
proof -
  from checkout_InrD [OF assms] obtain rows s1 where
    rows: "include_rows s (userCartItem_findMany s userId) = Some rows" and
    cr: "transaction_create f now s (generate_transactionId now userId) userId paymentMethod
             (fst (forEach_item rows (0, []))) 1000 10000
             (fst (forEach_item rows (0, [])) + 1000 + 10000) ''preparing''
             (snd (forEach_item rows (0, []))) = Some (t, s1)" and
    del: "userCartItem_deleteMany f s1 userId = Some s'"
    by blast
  note c = transaction_create_SomeD [OF cr]
  note d = userCartItem_deleteMany_SomeD [OF del]
  have stored: "transactions s' = transactions s @ [t]"
    by (simp add: d(1) c(1))
  have its: "t_items t = map snapshot rows"
    by (simp add: c(9) forEach_item_acc)
  have lines: "list_all2 (line_of s) (userCartItem_findMany s userId) (t_items t)"
    unfolding its by (rule include_rows_lines [OF rows])
  from stored lines show ?thesis by simp
qed

theorem order_lines_frozen_witness:
  "checkout noFaults 1725123456789 store1 7 ''Bank Rakyat Indonesia'' = (Inr txn1, store2) \<and>
   map_option m_price (restoMenu_findUnique store1 5) = Some 50000 \<and>
   map_option m_price (restoMenu_findUnique (store2\<lparr>restoMenus := menus_repriced\<rparr>) 5) = Some 65000 \<and>
   transactions (store2\<lparr>restoMenus := menus_repriced\<rparr>) = [txn1] \<and>
   map oi_price (t_items txn1) = [50000, 15000] \<and>
   map oi_itemTotal (t_items txn1) = [100000, 15000] \<and>
   t_price txn1 = 115000 \<and> t_totalPrice txn1 = 126000 \<and>
   list_all2 (line_of store1) (userCartItem_findMany store1 7) (t_items txn1)"
proof -
  have p: "map_option m_price (restoMenu_findUnique store1 5) = Some 50000"
    by (simp add: restoMenu_findUnique_def store1_def store0_def)
  have q: "map_option m_price (restoMenu_findUnique (store2\<lparr>restoMenus := menus_repriced\<rparr>) 5) = Some 65000"
    by (simp add: restoMenu_findUnique_def menus_repriced_def)
  have r: "transactions store2 = [txn1]" by (simp add: store2_def)
  have v: "map oi_price (t_items txn1) = [50000, 15000] \<and> map oi_itemTotal (t_items txn1) = [100000, 15000] \<and>
           t_price txn1 = 115000 \<and> t_totalPrice txn1 = 126000"
    by (simp add: txn1_def)
  from order_lines_frozen [OF checkout_store1, of menus_repriced] checkout_store1 p q r v
  show ?thesis by simp
qed

section \<open>The order identifier\<close>

lemma digit_inj: "a < 10 \<Longrightarrow> b < 10 \<Longrightarrow> digit a = digit b \<Longrightarrow> a = b"
proof -
  assume a: "a < 10" and b: "b < 10" and e: "digit a = digit b"
  have d: "distinct ''0123456789''" by simp
  have l: "length ''0123456789'' = 10" by simp
  from e have "''0123456789'' ! a = ''0123456789'' ! b" by (simp only: digit_def)
  with d a b l show "a = b" by (simp only: nth_eq_iff_index_eq)
qed

lemma dec_not_Nil: "dec n \<noteq> []"
  by (subst dec.simps) simp

lemma dec_length_one: "length (dec n) = Suc 0 \<longleftrightarrow> n < 10"
proof (cases "n < 10")
  case True
  then show ?thesis by (subst dec.simps) simp
next
  case False
  have "dec (n div 10) \<noteq> []" by (rule dec_not_Nil)
  then have "length (dec (n div 10)) \<noteq> 0" by simp
  with False show ?thesis by (subst dec.simps) simp
qed

lemma dec_inj: "dec n = dec m \<Longrightarrow> n = m"
proof (induction n arbitrary: m rule: dec.induct)
  case (1 n)
  show ?case
  proof (cases "n < 10")
    case True
    then have "length (dec n) = Suc 0" by (simp add: dec_length_one)
    with "1.prems" have m: "m < 10" by (simp add: dec_length_one)
    from True m "1.prems" have "digit n = digit m" by (simp add: dec.simps [of n] dec.simps [of m])
    with True m show ?thesis by (rule digit_inj)
  next
    case False
    then have "length (dec n) \<noteq> Suc 0" by (simp add: dec_length_one)
    with "1.prems" have m: "\<not> m < 10" by (simp add: dec_length_one)
    from False m "1.prems"
    have e: "dec (n div 10) @ [digit (n mod 10)] = dec (m div 10) @ [digit (m mod 10)]"
      by (simp add: dec.simps [of n] dec.simps [of m])
    then have "dec (n div 10) = dec (m div 10)" and dg: "digit (n mod 10) = digit (m mod 10)"
      by simp_all
    with False "1.IH" have q: "n div 10 = m div 10" by blast
    have "n mod 10 = m mod 10" by (rule digit_inj [OF _ _ dg]) simp_all
    with q show ?thesis by (metis div_mult_mod_eq)
  qed
qed

text \<open>
  Timestamps of one width (thirteen digits from 2001 to 2286): the identifiers of two
  invocations are equal exactly when the millisecond and the user are the same.
\<close>

lemma generate_transactionId_same_width:
  assumes "length (dec now) = length (dec now')"
  shows "generate_transactionId now userId = generate_transactionId now' userId' \<longleftrightarrow>
         now = now' \<and> userId = userId'"
  using assms by (auto simp: generate_transactionId_def dec_inj)

lemma cart_store3: "userCartItem_findMany store3 7 \<noteq> []"
  by (simp add: userCartItem_findMany_def store3_def)

text \<open>
  Claim C9 asks that any two invocations of checkout generate different identifiers. The
  identifier is a function of the millisecond and the user alone. Two invocations of user
  7 in the millisecond 1725123456789: the first, on \<open>store1\<close>, creates the order
  \<open>txn1\<close> with the identifier \<open>TXN17251234567897\<close>; the second, on the store after
  the first with the cart filled again, generates the same identifier, the unique index
  on the identifier rejects the row, and the call fails with 500 and stores nothing.
\<close>

theorem transactionId_same_millisecond:
  "checkout noFaults 1725123456789 store1 7 ''Bank Rakyat Indonesia'' = (Inr txn1, store2) \<and>
   t_transactionId txn1 = generate_transactionId 1725123456789 7 \<and>
   generate_transactionId 1725123456789 7 = ''TXN17251234567897'' \<and>
   transactions store3 = [txn1] \<and>
   userCartItem_findMany store3 7 \<noteq> [] \<and>
   checkout noFaults 1725123456789 store3 7 ''Bank Rakyat Indonesia'' =
     (Inl (Failure 500 ''Failed to process checkout''), store3)"
  using checkout_store1 checkout_store3 gen1 cart_store3
  by (simp add: txn1_def store3_def store2_def)

section \<open>Setting the status of an order\<close>

lemma find_map_update:
  assumes "\<And>x. P (g x) = P x"
  shows "find P (map (\<lambda>x. if Q x then g x else x) xs) =
         map_option (\<lambda>x. if Q x then g x else x) (find P xs)"
  using assms by (induction xs) auto

lemma find_filter: "find P xs = (case filter P xs of [] \<Rightarrow> None | x # rest \<Rightarrow> Some x)"
  by (induction xs) simp_all

lemma set_validStatuses: "set validStatuses = order_statuses"
  by (simp add: validStatuses_def order_statuses_def)







text \<open>
  An id with no leading digits: \<^verbatim>\<open>Number.parseInt\<close> gives NaN, and the answer is 500 as
  well.
\<close>

lemma setStatus_NaN:
  "newStatus \<in> order_statuses \<Longrightarrow>
   setStatus now s userId None newStatus = (Inl (Failure 500 ''Failed to update order status''), s)"
  by (simp add: setStatus_def set_validStatuses errorResponse_def)

section \<open>Adding to the cart\<close>

lemma filter_map_preserve:
  assumes "\<And>x. P (f x) = P x"
  shows "filter P (map f xs) = map f (filter P xs)"
  using assms by (induction xs) auto

lemma find_Some_filter_single:
  assumes "find P xs = Some e" and "length (filter P xs) \<le> 1"
  shows "filter P xs = [e]"
proof -
  from assms(1) have "e \<in> set xs" and "P e"
    by (auto simp: find_Some_iff)
  then have mem: "e \<in> set (filter P xs)" by simp
  show ?thesis
  proof (cases "filter P xs")
    case Nil
    with mem show ?thesis by simp
  next
    case (Cons y ys)
    with assms(2) have "ys = []" by simp
    with Cons mem show ?thesis by simp
  qed
qed

lemma find_None_filter: "find P xs = None \<Longrightarrow> filter P xs = []"
  by (simp add: find_None_iff filter_empty_conv)

lemma addItem_step:
  assumes run: "addItem now s u r m q = (Inr x, s')"
    and one: "length (triple_entries s u r m) \<le> 1"
  shows "length (triple_entries s' u r m) = 1 \<and>
         sum_list (map c_quantity (triple_entries s' u r m)) =
           sum_list (map c_quantity (triple_entries s u r m)) + passed (now, q)"
proof (cases "userCartItem_findFirst s u r m")
  case None
  then have e: "triple_entries s u r m = []"
    unfolding userCartItem_findFirst_def triple_entries_def by (rule find_None_filter)
  from run None have "userCartItems s' = userCartItems s @
      [\<lparr>c_id = cartSeq s + 1, c_cartId = ''cart_'' @ dec u @ ''_'' @ dec now, c_userId = u,
        c_restaurantId = r, c_menuId = m, c_quantity = passed (now, q)\<rparr>]"
    by (auto simp: addItem_def userCartItem_create_def passed_def Let_def split: option.splits)
  with e show ?thesis
    by (simp add: triple_entries_def)
next
  case (Some e)
  let ?P = "\<lambda>c. c_userId c = u \<and> c_restaurantId c = r \<and> c_menuId c = m"
  let ?f = "\<lambda>c. if c_id c = c_id e then c\<lparr>c_quantity := c_quantity e + passed (now, q)\<rparr> else c"
  from Some one have single: "triple_entries s u r m = [e]"
    unfolding userCartItem_findFirst_def triple_entries_def by (rule find_Some_filter_single)
  from run Some have "userCartItems s' = map ?f (userCartItems s)"
    by (auto simp: addItem_def userCartItem_update_quantity_def passed_def Let_def split: option.splits)
  then have "triple_entries s' u r m = map ?f (triple_entries s u r m)"
    unfolding triple_entries_def by (simp add: filter_map_preserve)
  with single show ?thesis by simp
qed

lemma addItem_calls_sum:
  assumes "addItem_calls s u r m calls = Some s'"
    and "length (triple_entries s u r m) \<le> 1"
  shows "(calls \<noteq> [] \<longrightarrow> length (triple_entries s' u r m) = 1) \<and>
         length (triple_entries s' u r m) \<le> 1 \<and>
         sum_list (map c_quantity (triple_entries s' u r m)) =
           sum_list (map c_quantity (triple_entries s u r m)) + sum_list (map passed calls)"
  using assms
proof (induction calls arbitrary: s)
  case Nil
  then show ?case by simp
next
  case (Cons call calls)
  obtain now q where call: "call = (now, q)" by (cases call)
  from Cons.prems(1) call obtain x s1 where
    step: "addItem now s u r m q = (Inr x, s1)" and rest: "addItem_calls s1 u r m calls = Some s'"
    by (auto split: prod.splits sum.splits)
  note st = addItem_step [OF step Cons.prems(2)]
  then have le: "length (triple_entries s1 u r m) \<le> 1" by simp
  note ih = Cons.IH [OF rest le]
  show ?case
  proof (cases "calls = []")
    case True
    with rest have "s' = s1" by simp
    with st call True show ?thesis by simp
  next
    case False
    with ih st call show ?thesis by simp
  qed
qed

lemma calls1_run: "addItem_calls store0 7 1 5 calls1 = Some store_after_calls1"
  by (simp add: calls1_def store_after_calls1_def store0_def addItem_def Let_def
        restaurant_findUnique_def restoMenu_findFirst_def userCartItem_findFirst_def
        userCartItem_create_def userCartItem_update_quantity_def dec.simps digit_def)

text \<open>
  Claim C4. For every run of successful addItem calls (at least one) with the same user,
  restaurant and menu, starting from a cart with no entry for them, the cart afterwards
  has exactly one entry for them, and its quantity is the sum of the quantities passed,
  a call that passes none counting \<open>1\<close>.
\<close>

theorem addItem_calls_one_entry:
  assumes "triple_entries s userId restaurantId menuId = []"
    and "calls \<noteq> []"
    and "addItem_calls s userId restaurantId menuId calls = Some s'"
  shows "\<exists>c. triple_entries s' userId restaurantId menuId = [c] \<and>
             c_quantity c = sum_list (map passed calls)"
proof -
  from assms(1) have le: "length (triple_entries s userId restaurantId menuId) \<le> 1" by simp
  from addItem_calls_sum [OF assms(3) le] assms(1,2)
  have l: "length (triple_entries s' userId restaurantId menuId) = 1"
    and q: "sum_list (map c_quantity (triple_entries s' userId restaurantId menuId)) = sum_list (map passed calls)"
    by simp_all
  from l obtain c where c: "triple_entries s' userId restaurantId menuId = [c]"
    by (auto simp: length_Suc_conv)
  with q show ?thesis by simp
qed

theorem addItem_calls_one_entry_witness:
  "triple_entries store0 7 1 5 = [] \<and> calls1 \<noteq> [] \<and>
   addItem_calls store0 7 1 5 calls1 = Some store_after_calls1 \<and>
   triple_entries store_after_calls1 7 1 5 = userCartItems store_after_calls1 \<and>
   length (userCartItems store_after_calls1) = 1 \<and>
   map c_quantity (userCartItems store_after_calls1) = [6] \<and>
   sum_list (map passed calls1) = 6"
proof -
  have a: "triple_entries store0 7 1 5 = []" by (simp add: triple_entries_def store0_def)
  have b: "calls1 \<noteq> []" by (simp add: calls1_def)
  have e: "triple_entries store_after_calls1 7 1 5 = userCartItems store_after_calls1"
    by (simp add: triple_entries_def store_after_calls1_def)
  have p: "sum_list (map passed calls1) = 6" by (simp add: calls1_def passed_def)
  from addItem_calls_one_entry [OF a b calls1_run] e p
  have "length (userCartItems store_after_calls1) = 1 \<and> map c_quantity (userCartItems store_after_calls1) = [6]"
    by auto
  with a b calls1_run e p show ?thesis by blast
qed

section \<open>The rating of a restaurant\<close>

lemma floor_rat_numeral: "\<lfloor>numeral a / numeral b :: rat\<rfloor> = numeral a div numeral b"
  by (metis floor_divide_of_int_eq of_int_numeral)

lemma foldl_star_sum:
  "foldl (\<lambda>sum review. sum + rv_star review) a reviews = a + sum_list (map rv_star reviews)"
  by (induction reviews arbitrary: a) simp_all

lemma map_filter_concat:
  "map f (filter P xs) = concat (map (\<lambda>v. if P v then [f v] else []) xs)"
  by (induction xs) simp_all

lemma stars_of_findMany: "map rv_star (restoReview_findMany s rid) = stars_of s rid"
  unfolding restoReview_findMany_def stars_of_def by (rule map_filter_concat)

lemma Math_round_bounds:
  "of_int (Math_round (x * 10)) / 10 \<le> x + 1 / 20 \<and> x - 1 / 20 < of_int (Math_round (x * 10)) / 10"
proof -
  have "of_int \<lfloor>x * 10 + 1 / 2\<rfloor> \<le> x * 10 + 1 / 2" by (rule of_int_floor_le)
  moreover have "x * 10 + 1 / 2 < of_int \<lfloor>x * 10 + 1 / 2\<rfloor> + 1"
    using floor_correct [of "x * 10 + 1 / 2"] by simp
  ultimately show ?thesis by (simp add: Math_round_def field_simps)
qed

lemma rating_update:
  "rating (restaurant_update_star s rid v) rid' =
     (if rid' = rid then map_option (\<lambda>x. v) (rating s rid) else rating s rid')"
proof -
  have f: "find (\<lambda>r. r_id r = rid') (restaurants (restaurant_update_star s rid v)) =
        map_option (\<lambda>r. if r_id r = rid then r\<lparr>r_star := v\<rparr> else r)
          (find (\<lambda>r. r_id r = rid') (restaurants s))"
    unfolding restaurant_update_star_def by (simp add: find_map_update)
  show ?thesis
  proof (cases "find (\<lambda>r. r_id r = rid') (restaurants s)")
    case None
    with f show ?thesis by (auto simp: rating_def)
  next
    case (Some a)
    then have "r_id a = rid'" by (auto simp: find_Some_iff)
    with f Some show ?thesis by (auto simp: rating_def)
  qed
qed

lemma updateRestaurantRating_nonempty:
  assumes "stars_of s rid \<noteq> []"
  shows "updateRestaurantRating s rid =
           restaurant_update_star s rid (of_int (Math_round (mean_star s rid * 10)) / 10)"
proof -
  from assms have "restoReview_findMany s rid \<noteq> []"
    using stars_of_findMany [of s rid] by auto
  moreover have "length (restoReview_findMany s rid) = length (stars_of s rid)"
    using stars_of_findMany [of s rid] by (metis length_map)
  ultimately show ?thesis
    by (simp add: updateRestaurantRating_def Let_def mean_star_def foldl_star_sum stars_of_findMany)
qed

lemma updateRestaurantRating_empty:
  assumes "stars_of s rid = []"
  shows "updateRestaurantRating s rid = s"
proof -
  from assms have "restoReview_findMany s rid = []"
    using stars_of_findMany [of s rid] by auto
  then show ?thesis by (simp add: updateRestaurantRating_def)
qed

lemma updateRestaurantRating_reviews: "restoReviews (updateRestaurantRating s rid) = restoReviews s"
  by (simp add: updateRestaurantRating_def restaurant_update_star_def Let_def)

lemma rating_543: "rating (updateRestaurantRating store_543 1) 1 = Some 4"
  by (simp add: rating_def updateRestaurantRating_def restoReview_findMany_def restaurant_update_star_def
      Math_round_def floor_rat_numeral store_543_def store2_def store1_def store0_def Let_def)

lemma rating_5: "rating (updateRestaurantRating store_5 1) 1 = Some 5"
  by (simp add: rating_def updateRestaurantRating_def restoReview_findMany_def restaurant_update_star_def
      Math_round_def floor_rat_numeral store_5_def store2_def store1_def store0_def Let_def)

lemma rating_5444: "rating (updateRestaurantRating store_5444 1) 1 = Some (43 / 10)"
  by (simp add: rating_def updateRestaurantRating_def restoReview_findMany_def restaurant_update_star_def
      Math_round_def floor_rat_numeral store_5444_def store2_def store1_def store0_def Let_def)

lemma stars_543:
  "stars_of store_543 1 = [5, 4, 3] \<and> stars_of store_543 2 = [1] \<and> stars_of store_543 3 = []"
  by (simp add: stars_of_def store_543_def)

lemma ratings_store_543:
  "rating store_543 1 = Some (45 / 10) \<and> rating store_543 2 = Some (42 / 10) \<and> rating store_543 3 = Some 4"
  by (simp add: rating_def store_543_def store2_def store1_def store0_def)

text \<open>
  Claim C5. For a stored restaurant: when at least one review row carries its id, its
  stored rating afterwards is a whole number of tenths \<open>k / 10\<close> with
  \<open>mean - 1/20 < k / 10 \<le> mean + 1/20\<close>, where \<open>mean\<close> is the arithmetic mean of the
  stars of the review rows that carry its id: the mean rounded to one decimal, a tie
  going up; when no review row carries its id, the store is unchanged. In both cases the
  rating of every other restaurant and the review rows are as before.
\<close>

theorem updateRestaurantRating_rounded_mean:
  assumes "rating s restaurantId \<noteq> None"
  shows "(stars_of s restaurantId \<noteq> [] \<longrightarrow>
            (\<exists>k::int. rating (updateRestaurantRating s restaurantId) restaurantId = Some (of_int k / 10) \<and>
                 mean_star s restaurantId - 1 / 20 < of_int k / 10 \<and>
                 of_int k / 10 \<le> mean_star s restaurantId + 1 / 20)) \<and>
         (stars_of s restaurantId = [] \<longrightarrow> updateRestaurantRating s restaurantId = s) \<and>
         (\<forall>other. other \<noteq> restaurantId \<longrightarrow>
            rating (updateRestaurantRating s restaurantId) other = rating s other) \<and>
         restoReviews (updateRestaurantRating s restaurantId) = restoReviews s"
proof (intro conjI impI allI)
  assume ne: "stars_of s restaurantId \<noteq> []"
  let ?k = "Math_round (mean_star s restaurantId * 10)"
  from assms obtain old where "rating s restaurantId = Some old" by auto
  then have "rating (updateRestaurantRating s restaurantId) restaurantId = Some (of_int ?k / 10)"
    by (simp add: updateRestaurantRating_nonempty [OF ne] rating_update)
  with Math_round_bounds [of "mean_star s restaurantId"]
  show "\<exists>k::int. rating (updateRestaurantRating s restaurantId) restaurantId = Some (of_int k / 10) \<and>
                 mean_star s restaurantId - 1 / 20 < of_int k / 10 \<and>
                 of_int k / 10 \<le> mean_star s restaurantId + 1 / 20"
    by blast
next
  assume "stars_of s restaurantId = []"
  then show "updateRestaurantRating s restaurantId = s"
    by (rule updateRestaurantRating_empty)
next
  fix other assume "other \<noteq> restaurantId"
  then show "rating (updateRestaurantRating s restaurantId) other = rating s other"
    by (cases "stars_of s restaurantId = []")
       (simp_all add: updateRestaurantRating_empty updateRestaurantRating_nonempty rating_update)
next
  show "restoReviews (updateRestaurantRating s restaurantId) = restoReviews s"
    by (rule updateRestaurantRating_reviews)
qed

theorem updateRestaurantRating_rounded_mean_witness:
  "rating store_543 1 = Some (45 / 10) \<and>
   stars_of store_543 1 = [5, 4, 3] \<and> stars_of store_543 2 = [1] \<and>
   mean_star store_543 1 = 4 \<and>
   rating (updateRestaurantRating store_543 1) 1 = Some 4 \<and>
   (\<exists>k::int. rating (updateRestaurantRating store_543 1) 1 = Some (of_int k / 10) \<and>
       mean_star store_543 1 - 1 / 20 < of_int k / 10 \<and>
       of_int k / 10 \<le> mean_star store_543 1 + 1 / 20) \<and>
   rating (updateRestaurantRating store_543 1) 2 = Some (42 / 10) \<and>
   rating store_543 3 = Some 4 \<and> stars_of store_543 3 = [] \<and>
   updateRestaurantRating store_543 3 = store_543 \<and>
   stars_of store_5 1 = [5] \<and>
   rating (updateRestaurantRating store_5 1) 1 = Some 5 \<and>
   mean_star store_5444 1 = 17 / 4 \<and>
   rating (updateRestaurantRating store_5444 1) 1 = Some (43 / 10)"
proof -
  note r = ratings_store_543
  have e1: "rating store_543 1 \<noteq> None" and e3: "rating store_543 3 \<noteq> None"
    using r by simp_all
  note t1 = updateRestaurantRating_rounded_mean [OF e1]
  note t3 = updateRestaurantRating_rounded_mean [OF e3]
  have ne: "stars_of store_543 1 \<noteq> []" using stars_543 by simp
  have m: "mean_star store_543 1 = 4" by (simp add: mean_star_def stars_of_def store_543_def)
  from t1 [THEN conjunct1] ne
  have b: "\<exists>k::int. rating (updateRestaurantRating store_543 1) 1 = Some (of_int k / 10) \<and>
       mean_star store_543 1 - 1 / 20 < of_int k / 10 \<and>
       of_int k / 10 \<le> mean_star store_543 1 + 1 / 20"
    by (rule mp)
  have "(2::nat) \<noteq> 1" by simp
  with t1 [THEN conjunct2, THEN conjunct2, THEN conjunct1, rule_format, of 2] r
  have o: "rating (updateRestaurantRating store_543 1) 2 = Some (42 / 10)" by simp
  from t3 [THEN conjunct2, THEN conjunct1] stars_543
  have u: "updateRestaurantRating store_543 3 = store_543" by simp
  have s5: "stars_of store_5 1 = [5]" by (simp add: stars_of_def store_5_def)
  have m4: "mean_star store_5444 1 = 17 / 4" by (simp add: mean_star_def stars_of_def store_5444_def)
  from r stars_543 m rating_543 b o u s5 rating_5 m4 rating_5444 show ?thesis by simp
qed

section \<open>Creating a review\<close>

lemma findFirst_referenced:
  "transaction_findFirst_by_transactionId s (JString tid) userId =
     Inr (case referenced_orders s tid userId of [] \<Rightarrow> None | t # rest \<Rightarrow> Some t)"
  by (simp add: transaction_findFirst_by_transactionId_def referenced_orders_def find_filter)

lemma findUnique_exists:
  "INT4 rid \<Longrightarrow> \<exists>found. restaurant_findUnique_by s (JNumber rid) = Inr found \<and>
                          (found = None \<longleftrightarrow> \<not> restaurant_exists s rid)"
  by (auto simp: restaurant_findUnique_by_def restaurant_exists_def find_None_iff)

lemma findUnique_Inr:
  "restaurant_findUnique_by s (JNumber rid) = Inr found \<Longrightarrow> INT4 rid"
  by (simp add: restaurant_findUnique_by_def split: if_splits)

lemma some_line_item:
  "list_ex (\<lambda>item. int (oi_restaurantId item) = rid) (t_items t) \<longleftrightarrow> has_line_item t rid"
  by (auto simp: has_line_item_def list_ex_iff)

lemma findFirst_reviewed:
  "INT4 rid \<Longrightarrow> \<exists>found. restoReview_findFirst s userId (JNumber rid) = Inr found \<and>
                          (found = None \<longleftrightarrow> \<not> has_reviewed s userId rid)"
  by (auto simp: restoReview_findFirst_def has_reviewed_def find_None_iff image_iff)

lemma create_InrD:
  assumes "restoReview_create s userId (JNumber rid) star comment = Inr (review, s1)"
  shows "restoReviews s1 = restoReviews s @ [review] \<and> rv_userId review = userId \<and>
         int (rv_restaurantId review) = rid \<and> star = JNumber (rv_star review) \<and>
         restaurants s1 = restaurants s \<and> transactions s1 = transactions s"
  using assms
  by (auto simp: restoReview_create_def Let_def split: jsvalue.splits if_splits)

text \<open>
  Claim C7, as the code has it, for a request whose transaction id is a string and whose
  restaurant id is a number. When no stored order has this transaction id and the
  calling user, the answer is 404 and the store is unchanged. Otherwise, with the first
  such order and a restaurant id that is a 32-bit integer: when the restaurant is not
  stored the answer is 404; when it is stored and the order has no line item of it the
  answer is 400; when the order has one and a review row of this user and restaurant is
  stored the answer is 409; the store is unchanged each time. A review is created only
  when the order of the calling user has a line item of the stored restaurant and no
  review row of the user and restaurant is stored; then the row is appended, with the
  user, the restaurant and the star of the request. The answer is 404 \<open>Transaction not
  found\<close> only when no stored order has this transaction id and the calling user, 400
  only when the order has no line item of the restaurant, and 409 only when a review row
  of this user and restaurant is stored. Every failure leaves the store unchanged.
\<close>

theorem createReview_checks:
  assumes "createReview s userId (JString tid) (JNumber rid) star comment = (res, s')"
  shows
    "(referenced_orders s tid userId = [] \<longrightarrow>
        res = Inl (Failure 404 ''Transaction not found or does not belong to you'') \<and> s' = s) \<and>
     (\<forall>order rest. referenced_orders s tid userId = order # rest \<and> INT4 rid \<longrightarrow>
        (\<not> restaurant_exists s rid \<longrightarrow>
           res = Inl (Failure 404 ''Restaurant not found'') \<and> s' = s) \<and>
        (restaurant_exists s rid \<and> \<not> has_line_item order rid \<longrightarrow>
           res = Inl (Failure 400 ''You can only review restaurants you have ordered from'') \<and> s' = s) \<and>
        (restaurant_exists s rid \<and> has_line_item order rid \<and> has_reviewed s userId rid \<longrightarrow>
           res = Inl (Failure 409 ''You have already reviewed this restaurant'') \<and> s' = s)) \<and>
     (\<forall>review. res = Inr review \<longrightarrow>
        (\<exists>order rest. referenced_orders s tid userId = order # rest \<and> has_line_item order rid) \<and>
        restaurant_exists s rid \<and> \<not> has_reviewed s userId rid \<and>
        restoReviews s' = restoReviews s @ [review] \<and>
        rv_userId review = userId \<and> int (rv_restaurantId review) = rid \<and>
        star = JNumber (rv_star review)) \<and>
     (res = Inl (Failure 404 ''Transaction not found or does not belong to you'') \<longrightarrow>
        referenced_orders s tid userId = []) \<and>
     (res = Inl (Failure 400 ''You can only review restaurants you have ordered from'') \<longrightarrow>
        (\<exists>order rest. referenced_orders s tid userId = order # rest \<and> \<not> has_line_item order rid)) \<and>
     (res = Inl (Failure 409 ''You have already reviewed this restaurant'') \<longrightarrow>
        has_reviewed s userId rid) \<and>
     (isl res \<longrightarrow> s' = s)"
proof (cases "referenced_orders s tid userId")
  case Nil
  with assms show ?thesis
    by (auto simp: createReview_def findFirst_referenced errorResponse_def)
next
  case (Cons order rest)
  note ref = Cons
  show ?thesis
  proof (cases "INT4 rid")
    case False
    then have "restaurant_findUnique_by s (JNumber rid) = Inl ()"
      by (simp add: restaurant_findUnique_by_def)
    with assms ref False show ?thesis
      by (auto simp: createReview_def findFirst_referenced errorResponse_def)
  next
    case True
    from findUnique_exists [OF True] obtain found where
      fu: "restaurant_findUnique_by s (JNumber rid) = Inr found"
      and fe: "found = None \<longleftrightarrow> \<not> restaurant_exists s rid" by blast
    from findFirst_reviewed [OF True] obtain prior where
      ff: "restoReview_findFirst s userId (JNumber rid) = Inr prior"
      and fr: "prior = None \<longleftrightarrow> \<not> has_reviewed s userId rid" by blast
    show ?thesis
    proof (cases found)
      case None
      with assms ref True fu fe show ?thesis
        by (auto simp: createReview_def findFirst_referenced errorResponse_def)
    next
      case (Some rest')
      note found = Some
      show ?thesis
      proof (cases "has_line_item order rid")
        case False
        with assms ref True fu fe found show ?thesis
          by (auto simp: createReview_def findFirst_referenced errorResponse_def some_line_item)
      next
        case True
        note item = True
        show ?thesis
        proof (cases prior)
          case (Some v)
          with assms ref \<open>INT4 rid\<close> fu fe found item ff fr show ?thesis
            by (auto simp: createReview_def findFirst_referenced errorResponse_def some_line_item)
        next
          case None
          show ?thesis
          proof (cases "restoReview_create s userId (JNumber rid) star (if js_truthy comment then comment else JNull)")
            case (Inl u)
            with assms ref \<open>INT4 rid\<close> fu fe found item ff fr None show ?thesis
              by (auto simp: createReview_def findFirst_referenced errorResponse_def some_line_item)
          next
            case (Inr p)
            obtain review s1 where p: "p = (review, s1)" by (cases p)
            note c = create_InrD [OF Inr [unfolded p]]
            from assms ref fu found item ff None Inr p
            have "res = Inr review" and "s' = updateRestaurantRating s1 (rv_restaurantId review)"
              by (auto simp: createReview_def findFirst_referenced some_line_item)
            with c ref \<open>INT4 rid\<close> fe found item fr None show ?thesis
              by (auto simp: updateRestaurantRating_reviews)
          qed
        qed
      qed
    qed
  qed
qed


lemma orders_store_done:
  "referenced_orders store_done ''TXN17251234567897'' 7 = [txn1_done] \<and>
   referenced_orders store_done ''TXN17251234567897'' 8 = [] \<and>
   referenced_orders store_done_reviewed ''TXN17251234567897'' 7 = [txn1_done] \<and>
   t_userId txn1_done = 7 \<and> t_status txn1_done = ''done''"
  by (simp add: referenced_orders_def store_done_reviewed_def store_done_def)
     (simp add: txn1_done_def txn1_def)

lemma restaurants_store_done:
  "restaurant_exists store_done 1 \<and> restaurant_exists store_done 3 \<and>
   \<not> restaurant_exists store_done 99 \<and> restaurant_exists store_done_reviewed 1"
  by (simp add: restaurant_exists_def store_done_reviewed_def store_done_def store2_def store1_def store0_def)

lemma items_txn1_done:
  "has_line_item txn1_done 1 \<and> \<not> has_line_item txn1_done 3"
  by (simp add: has_line_item_def txn1_done_def txn1_def)

lemma reviews_store_done:
  "\<not> has_reviewed store_done 7 1 \<and> has_reviewed store_done_reviewed 7 1"
  by (simp add: has_reviewed_def store_done_reviewed_def store_done_def store2_def store1_def store0_def
      review1_def)

lemma reviews_store_done_other:
  "has_reviewed store_done_other 8 1 \<and> \<not> has_reviewed store_done_other 7 1"
  by (simp add: has_reviewed_def store_done_other_def)

lemma int4_small: "INT4 1 \<and> INT4 3 \<and> INT4 99 \<and> INT4 5"
  by (simp add: INT4_def)

lemma createReview_store_done:
  "createReview store_done 7 (JString ''TXN17251234567897'') (JNumber 1) (JNumber 5) JUndefined =
     (Inr review1, updateRestaurantRating store_done_reviewed 1)"
proof -
  have a: "transaction_findFirst_by_transactionId store_done (JString ''TXN17251234567897'') 7 = Inr (Some txn1_done)"
    by (simp add: findFirst_referenced orders_store_done)
  have b: "restaurant_findUnique_by store_done (JNumber 1) = Inr (Some (hd (restaurants store0)))"
    by (simp add: restaurant_findUnique_by_def INT4_def store_done_def store2_def store1_def store0_def)
  have c: "list_ex (\<lambda>item. int (oi_restaurantId item) = 1) (t_items txn1_done)"
    by (simp add: txn1_done_def txn1_def)
  have d: "restoReview_findFirst store_done 7 (JNumber 1) = Inr None"
    by (simp add: restoReview_findFirst_def INT4_def store_done_def store2_def store1_def store0_def)
  have e: "restoReview_create store_done 7 (JNumber 1) (JNumber 5) JNull = Inr (review1, store_done_reviewed)"
    by (simp add: restoReview_create_def INT4_def Let_def review1_def store_done_reviewed_def store_done_def
        store2_def store1_def store0_def)
  have f: "rv_restaurantId review1 = 1" by (simp add: review1_def)
  show ?thesis
    using a b c d e f by (simp add: createReview_def)
qed

text \<open>
  The handler does not read the status of the order: the same request for the order
  while it is in status \<open>preparing\<close> creates the review as well. The documentation of
  the route describes the field as the transaction id of a completed order.
\<close>

lemma createReview_preparing:
  "t_status txn1 = ''preparing'' \<and> transactions store2 = [txn1] \<and>
   createReview store2 7 (JString ''TXN17251234567897'') (JNumber 1) (JNumber 5) JUndefined =
     (Inr review1, updateRestaurantRating (store2\<lparr>restoReviews := [review1], reviewSeq := 1\<rparr>) 1)"
proof -
  have a: "transaction_findFirst_by_transactionId store2 (JString ''TXN17251234567897'') 7 = Inr (Some txn1)"
    by (simp add: transaction_findFirst_by_transactionId_def store2_def) (simp add: txn1_def)
  have b: "restaurant_findUnique_by store2 (JNumber 1) = Inr (Some (hd (restaurants store0)))"
    by (simp add: restaurant_findUnique_by_def INT4_def store2_def store1_def store0_def)
  have c: "list_ex (\<lambda>item. int (oi_restaurantId item) = 1) (t_items txn1)"
    by (simp add: txn1_def)
  have d: "restoReview_findFirst store2 7 (JNumber 1) = Inr None"
    by (simp add: restoReview_findFirst_def INT4_def store2_def store1_def store0_def)
  have e: "restoReview_create store2 7 (JNumber 1) (JNumber 5) JNull =
             Inr (review1, store2\<lparr>restoReviews := [review1], reviewSeq := 1\<rparr>)"
    by (simp add: restoReview_create_def INT4_def Let_def review1_def store2_def store1_def store0_def)
  have f: "rv_restaurantId review1 = 1" by (simp add: review1_def)
  have g: "t_status txn1 = ''preparing'' \<and> transactions store2 = [txn1]"
    by (simp add: txn1_def store2_def)
  have "createReview store2 7 (JString ''TXN17251234567897'') (JNumber 1) (JNumber 5) JUndefined =
     (Inr review1, updateRestaurantRating (store2\<lparr>restoReviews := [review1], reviewSeq := 1\<rparr>) 1)"
    using a b c d e f by (simp add: createReview_def)
  with g show ?thesis by simp
qed

text \<open>
  A star sent as the string \<open>"5"\<close> meets every check of the handler; the store client
  rejects it for the INTEGER column, and the answer is 500.
\<close>

lemma createReview_star_string:
  "createReview store_done 7 (JString ''TXN17251234567897'') (JNumber 1) (JString ''5'') JUndefined =
     (Inl (Failure 500 ''Failed to create review''), store_done)"
proof -
  have a: "transaction_findFirst_by_transactionId store_done (JString ''TXN17251234567897'') 7 = Inr (Some txn1_done)"
    by (simp add: findFirst_referenced orders_store_done)
  have b: "restaurant_findUnique_by store_done (JNumber 1) = Inr (Some (hd (restaurants store0)))"
    by (simp add: restaurant_findUnique_by_def INT4_def store_done_def store2_def store1_def store0_def)
  have c: "list_ex (\<lambda>item. int (oi_restaurantId item) = 1) (t_items txn1_done)"
    by (simp add: txn1_done_def txn1_def)
  have d: "restoReview_findFirst store_done 7 (JNumber 1) = Inr None"
    by (simp add: restoReview_findFirst_def INT4_def store_done_def store2_def store1_def store0_def)
  have e: "restoReview_create store_done 7 (JNumber 1) (JString ''5'') JNull = Inl ()"
    by (simp add: restoReview_create_def)
  show ?thesis
    using a b c d e by (simp add: createReview_def errorResponse_def)
qed

theorem createReview_checks_witness:
  "createReview store_done 8 (JString ''TXN17251234567897'') (JNumber 1) (JNumber 5) JUndefined =
     (Inl (Failure 404 ''Transaction not found or does not belong to you''), store_done) \<and>
   createReview store_done 7 (JString ''TXN17251234567897'') (JNumber 99) (JNumber 5) JUndefined =
     (Inl (Failure 404 ''Restaurant not found''), store_done) \<and>
   createReview store_done 7 (JString ''TXN17251234567897'') (JNumber 3) (JNumber 5) JUndefined =
     (Inl (Failure 400 ''You can only review restaurants you have ordered from''), store_done) \<and>
   createReview store_done_reviewed 7 (JString ''TXN17251234567897'') (JNumber 1) (JNumber 4) JUndefined =
     (Inl (Failure 409 ''You have already reviewed this restaurant''), store_done_reviewed) \<and>
   fst (createReview store_done 7 (JString ''TXN17251234567897'') (JNumber 1) (JNumber 5) JUndefined) = Inr review1 \<and>
   referenced_orders store_done ''TXN17251234567897'' 7 = [txn1_done] \<and>
   has_line_item txn1_done 1 \<and> restaurant_exists store_done 1 \<and> \<not> has_reviewed store_done 7 1 \<and>
   restoReviews (snd (createReview store_done 7 (JString ''TXN17251234567897'') (JNumber 1) (JNumber 5) JUndefined)) =
     restoReviews store_done @ [review1] \<and>
   rv_userId review1 = 7 \<and> int (rv_restaurantId review1) = 1 \<and> rv_star review1 = 5 \<and>
   has_reviewed store_done_other 8 1 \<and> \<not> has_reviewed store_done_other 7 1 \<and>
   fst (createReview store_done_other 7 (JString ''TXN17251234567897'') (JNumber 1) (JNumber 5) JUndefined) \<noteq>
     Inl (Failure 409 ''You have already reviewed this restaurant'')"
proof -
  let ?a = "createReview store_done 8 (JString ''TXN17251234567897'') (JNumber 1) (JNumber 5) JUndefined"
  let ?b = "createReview store_done 7 (JString ''TXN17251234567897'') (JNumber 99) (JNumber 5) JUndefined"
  let ?c = "createReview store_done 7 (JString ''TXN17251234567897'') (JNumber 3) (JNumber 5) JUndefined"
  let ?d = "createReview store_done_reviewed 7 (JString ''TXN17251234567897'') (JNumber 1) (JNumber 4) JUndefined"
  let ?e = "createReview store_done 7 (JString ''TXN17251234567897'') (JNumber 1) (JNumber 5) JUndefined"
  note o = orders_store_done and r = restaurants_store_done and i = items_txn1_done
    and v = reviews_store_done and n = int4_small
  have "?a = (fst ?a, snd ?a)" by simp
  from createReview_checks [OF this, THEN conjunct1] o
  have "fst ?a = Inl (Failure 404 ''Transaction not found or does not belong to you'') \<and> snd ?a = store_done"
    by simp
  then have 1: "?a = (Inl (Failure 404 ''Transaction not found or does not belong to you''), store_done)"
    by (simp add: prod_eq_iff)
  have ob: "referenced_orders store_done ''TXN17251234567897'' 7 = txn1_done # [] \<and> INT4 99"
    using o n by simp
  have "?b = (fst ?b, snd ?b)" by simp
  from createReview_checks [OF this, THEN conjunct2, THEN conjunct1, rule_format, OF ob, THEN conjunct1] r
  have "fst ?b = Inl (Failure 404 ''Restaurant not found'') \<and> snd ?b = store_done"
    by simp
  then have 2: "?b = (Inl (Failure 404 ''Restaurant not found''), store_done)"
    by (simp add: prod_eq_iff)
  have oc: "referenced_orders store_done ''TXN17251234567897'' 7 = txn1_done # [] \<and> INT4 3"
    using o n by simp
  have "?c = (fst ?c, snd ?c)" by simp
  from createReview_checks [OF this, THEN conjunct2, THEN conjunct1, rule_format, OF oc,
      THEN conjunct2, THEN conjunct1] r i
  have "fst ?c = Inl (Failure 400 ''You can only review restaurants you have ordered from'') \<and> snd ?c = store_done"
    by simp
  then have 3: "?c = (Inl (Failure 400 ''You can only review restaurants you have ordered from''), store_done)"
    by (simp add: prod_eq_iff)
  have od: "referenced_orders store_done_reviewed ''TXN17251234567897'' 7 = txn1_done # [] \<and> INT4 1"
    using o n by simp
  have "?d = (fst ?d, snd ?d)" by simp
  from createReview_checks [OF this, THEN conjunct2, THEN conjunct1, rule_format, OF od,
      THEN conjunct2, THEN conjunct2] r i v
  have "fst ?d = Inl (Failure 409 ''You have already reviewed this restaurant'') \<and> snd ?d = store_done_reviewed"
    by simp
  then have 4: "?d = (Inl (Failure 409 ''You have already reviewed this restaurant''), store_done_reviewed)"
    by (simp add: prod_eq_iff)
  have pe: "?e = (fst ?e, snd ?e)" by simp
  have fe: "fst ?e = Inr review1" by (simp add: createReview_store_done)
  from createReview_checks [OF pe, THEN conjunct2, THEN conjunct2, THEN conjunct1, rule_format, OF fe]
  have 5: "restoReviews (snd ?e) = restoReviews store_done @ [review1] \<and>
           rv_userId review1 = 7 \<and> int (rv_restaurantId review1) = 1 \<and> JNumber 5 = JNumber (rv_star review1)"
    by simp
  let ?f = "createReview store_done_other 7 (JString ''TXN17251234567897'') (JNumber 1) (JNumber 5) JUndefined"
  have pf: "?f = (fst ?f, snd ?f)" by simp
  note k = createReview_checks [OF pf, THEN conjunct2, THEN conjunct2, THEN conjunct2,
      THEN conjunct2, THEN conjunct2, THEN conjunct1]
  have 6: "fst ?f \<noteq> Inl (Failure 409 ''You have already reviewed this restaurant'')"
    using k reviews_store_done_other by blast
  from 1 2 3 4 fe 5 6 o r i v reviews_store_done_other show ?thesis by simp
qed

text \<open>
  The claim says that a review for an order that is not the requesting user's fails with
  Forbidden. User 8 refers to the order of user 7: the lookup by transaction id and user
  finds nothing, and the answer is 404 \<open>Transaction not found or does not belong to
  you\<close>.
\<close>

theorem createReview_counterexample:
  "transactions store_done = [txn1_done] \<and> t_transactionId txn1_done = ''TXN17251234567897'' \<and>
   t_userId txn1_done = 7 \<and>
   createReview store_done 8 (JString ''TXN17251234567897'') (JNumber 1) (JNumber 5) JUndefined =
     (Inl (Failure 404 ''Transaction not found or does not belong to you''), store_done)"
proof -
  have "transaction_findFirst_by_transactionId store_done (JString ''TXN17251234567897'') 8 = Inr None"
    by (simp add: findFirst_referenced orders_store_done)
  then have "createReview store_done 8 (JString ''TXN17251234567897'') (JNumber 1) (JNumber 5) JUndefined =
     (Inl (Failure 404 ''Transaction not found or does not belong to you''), store_done)"
    by (simp add: createReview_def errorResponse_def)
  moreover have "transactions store_done = [txn1_done]" by (simp add: store_done_def)
  moreover have "t_transactionId txn1_done = ''TXN17251234567897'' \<and> t_userId txn1_done = 7"
    by (simp add: txn1_done_def txn1_def)
  ultimately show ?thesis by simp
qed

section \<open>Updating a review\<close>

lemma own_review_store_5:
  "find (\<lambda>v. rv_id v = 1 \<and> rv_userId v = 7) (restoReviews store_5) = Some review1"
  by (simp add: store_5_def review1_def)

text \<open>
  Claim C10. For every update of a review of the calling user that supplies \<open>star = 0\<close>:
  zero is falsy, so the range check does not reject it and the call succeeds; the
  response is the review with its star as stored before (and the new comment, when one
  is supplied); the store afterwards is the store after the row update alone, in which
  every stored star is as before; and the restaurants are as before, so no rating has
  been recomputed.
\<close>

theorem updateReview_star_zero:
  assumes "find (\<lambda>v. rv_id v = reviewId \<and> rv_userId v = userId) (restoReviews s) = Some review"
    and "updateReview s userId reviewId (Some 0) comment = (res, s')"
  shows "res = Inr (case comment of None \<Rightarrow> review | Some c \<Rightarrow> review\<lparr>rv_comment := c\<rparr>) \<and>
         s' = restoReview_update s reviewId (review_data (Some 0) comment) \<and>
         map rv_star (restoReviews s') = map rv_star (restoReviews s) \<and>
         restaurants s' = restaurants s"
proof -
  have t: "\<not> truthy (Some 0)" by (simp add: truthy_def)
  have d: "review_data (Some 0) comment v = (case comment of None \<Rightarrow> v | Some c \<Rightarrow> v\<lparr>rv_comment := c\<rparr>)" for v
    by (simp add: review_data_def t)
  have st: "rv_star (review_data (Some 0) comment v) = rv_star v" for v
    by (simp add: d split: option.splits)
  from assms t have run: "res = Inr (review_data (Some 0) comment review) \<and>
        s' = restoReview_update s reviewId (review_data (Some 0) comment)"
    by (auto simp: updateReview_def Let_def)
  then have stars: "map rv_star (restoReviews s') = map rv_star (restoReviews s)"
    by (simp add: restoReview_update_def st comp_def cong: if_cong)
  from run have rs: "restaurants s' = restaurants s"
    by (simp add: restoReview_update_def)
  from run stars rs show ?thesis by (simp add: d)
qed

theorem updateReview_star_zero_witness:
  "find (\<lambda>v. rv_id v = 1 \<and> rv_userId v = 7) (restoReviews store_5) = Some review1 \<and>
   fst (updateReview store_5 7 1 (Some 0) (Some (Some ''Good''))) = Inr (review1\<lparr>rv_comment := Some ''Good''\<rparr>) \<and>
   rv_star (review1\<lparr>rv_comment := Some ''Good''\<rparr>) = 5 \<and>
   map rv_star (restoReviews (snd (updateReview store_5 7 1 (Some 0) (Some (Some ''Good''))))) = [5] \<and>
   restaurants (snd (updateReview store_5 7 1 (Some 0) (Some (Some ''Good'')))) = restaurants store_5 \<and>
   rating store_5 1 = Some (45 / 10) \<and>
   rating (updateRestaurantRating store_5 1) 1 = Some 5"
proof -
  let ?u = "updateReview store_5 7 1 (Some 0) (Some (Some ''Good''))"
  have "?u = (fst ?u, snd ?u)" by simp
  note th = updateReview_star_zero [OF own_review_store_5 this]
  have a: "map rv_star (restoReviews store_5) = [5]" by (simp add: store_5_def)
  have b: "rv_star (review1\<lparr>rv_comment := Some ''Good''\<rparr>) = 5" by (simp add: review1_def)
  have c: "rating store_5 1 = Some (45 / 10)"
    by (simp add: rating_def restaurant_findUnique_def store_5_def store2_def store1_def store0_def)
  note t1 = th [THEN conjunct1]
  have t3: "map rv_star (restoReviews (snd ?u)) = [5]"
    using th [THEN conjunct2, THEN conjunct2, THEN conjunct1] a by (rule trans)
  note t4 = th [THEN conjunct2, THEN conjunct2, THEN conjunct2]
  have t1': "fst ?u = Inr (review1\<lparr>rv_comment := Some ''Good''\<rparr>)"
    using t1 by simp
  from own_review_store_5 t1' b t3 t4 c rating_5 show ?thesis by (intro conjI)
qed

end
